theory Spec2Isabelle
  imports
    Complex_Main
    "HOL-Library.Word"
    "HOL-Library.Sublist"
    "HOL-Library.Log_Nat"
    "HOL-Library.Char_ord"
    "HOL-Library.List_Lexorder"
    "HOL-Library.AList"
begin

section \<open>The Checkly API client (checkly.go)\<close>

text \<open>
  A shallow embedding of the client of \<^verbatim>\<open>checkly.go\<close>: the transport \<^verbatim>\<open>apiCall\<close>, the
  create and delete operations of the five resources, the query string of
  \<^verbatim>\<open>GetCheckResults\<close>, the flag of \<^verbatim>\<open>withAutoAssignAlertsFlag\<close> and the alert channel
  codec (\<^verbatim>\<open>payloadFromAlertChannel\<close>, \<^verbatim>\<open>alertChannelFromJSON\<close>).

  Go strings used as paths and URLs are \<^typ>\<open>string\<close>. A Go \<^verbatim>\<open>int64\<close>, and a Go \<^verbatim>\<open>int\<close> (on a
  64-bit platform), is a \<^typ>\<open>64 word\<close>, read with \<^const>\<open>sint\<close>. An HTTP status code is an
  \<^typ>\<open>int\<close>.
\<close>

subsection \<open>JSON documents and message bodies\<close>

text \<open>
  A JSON document is its syntax tree. A number keeps its literal as a decimal
  \<open>m \<times> 10\<^sup>e\<close>: the literal \<^verbatim>\<open>42\<close> is \<open>JNumber 42 0\<close> and the literal \<^verbatim>\<open>42.0\<close> is
  \<open>JNumber 420 (-1)\<close>. An object keeps its members in the order of the text, duplicates
  included.

  A message body (\<^verbatim>\<open>[]byte\<close> of a request, \<^verbatim>\<open>string\<close> of a response) is seen the way Go's
  \<^verbatim>\<open>encoding/json\<close> reads it: \<open>Json j\<close> is a text whose first JSON value is \<open>j\<close>, and
  \<open>NotJson s\<close> is a text \<open>s\<close> that does not start with a JSON value (the empty body is
  \<open>NotJson []\<close>).
\<close>

datatype json =
    JNull
  | JBool bool
  | JNumber int int
  | JString string
  | JArray "json list"
  | JObject "(string \<times> json) list"

datatype body = Json json | NotJson string

definition nil_data :: body where
  "nil_data = NotJson []"

subsection \<open>Errors\<close>

text \<open>
  An error made by \<^verbatim>\<open>fmt.Errorf\<close> keeps its format string and its arguments. With the verb
  \<^verbatim>\<open>%d\<close> the message holds the decimal digits of the argument, with \<^verbatim>\<open>%s\<close> and \<^verbatim>\<open>%v\<close> the
  argument as it is, and with \<^verbatim>\<open>%q\<close> the argument as a double-quoted Go string literal.
  The errors of the libraries (\<^verbatim>\<open>net/http\<close>, \<^verbatim>\<open>encoding/json\<close>) are named by constructors.
\<close>

datatype go_error =
    Errorf string "fmt_arg list"
  | SyntaxError
  | UnmarshalTypeError
  | LibraryError string
  | UnsupportedType string
and fmt_arg =
    ArgInt int
  | ArgString string
  | ArgBody body
  | ArgError go_error

subsection \<open>Formatting (\<^verbatim>\<open>fmt.Sprintf\<close> with \<^verbatim>\<open>%d\<close>)\<close>

definition digit_char :: "nat \<Rightarrow> char" where
  "digit_char d = ''0123456789'' ! d"

function digits :: "int \<Rightarrow> string" where
  "digits n =
     (if n < 10 then [digit_char (nat n)]
      else digits (n div 10) @ [digit_char (nat (n mod 10))])"
  by pat_completeness auto
termination
  by (relation "measure nat") auto

definition fmt_d :: "int \<Rightarrow> string" where
  "fmt_d i = (if i < 0 then CHR ''-'' # digits (- i) else digits i)"

subsection \<open>\<^verbatim>\<open>strings.Contains\<close> and \<^verbatim>\<open>withAutoAssignAlertsFlag\<close>\<close>

fun strings_Contains :: "string \<Rightarrow> string \<Rightarrow> bool" where
  "strings_Contains [] substr = (substr = [])"
| "strings_Contains (c # s) substr = (prefix substr (c # s) \<or> strings_Contains s substr)"

definition withAutoAssignAlertsFlag :: "string \<Rightarrow> string" where
  "withAutoAssignAlertsFlag url' =
     (let flag = ''autoAssignAlerts=false'' in
      if strings_Contains url' ''?'' then url' @ ''&'' @ flag
      else url' @ ''?'' @ flag)"

subsection \<open>The transport: \<^verbatim>\<open>apiCall\<close>\<close>

text \<open>
  The client holds the base URL, the API key and the debug sink; of the sink the model
  keeps whether it is set (what is written to it is not modelled).

  The network is the environment. \<open>NewRequest_err\<close> is the verdict of \<^verbatim>\<open>http.NewRequest\<close>
  on a method and a URL, \<open>DumpRequestOut_err\<close> the one of \<^verbatim>\<open>httputil.DumpRequestOut\<close>, and
  \<open>Do\<close> what \<^verbatim>\<open>httpClient.Do\<close> and the read of the response body give for a request,
  knowing the requests sent before it: a transport error (cancellation included), or a
  status code with the body or the error of \<^verbatim>\<open>ioutil.ReadAll\<close>. The state threaded through
  every operation is the list of the requests handed to \<open>Do\<close> so far.
\<close>

record client =
  apiKey :: string
  url :: string
  debug :: bool

record request =
  Method :: string
  URL :: string
  Header :: "(string \<times> string) list"
  Body :: body

datatype http_result = DoError go_error | Response int "go_error + body"

record env =
  NewRequest_err :: "string \<Rightarrow> string \<Rightarrow> go_error option"
  DumpRequestOut_err :: "request \<Rightarrow> go_error option"
  Do :: "request list \<Rightarrow> request \<Rightarrow> http_result"

definition new_request :: "client \<Rightarrow> string \<Rightarrow> string \<Rightarrow> body \<Rightarrow> request" where
  "new_request c method' URL' data =
     \<lparr>Method = method',
      URL = url c @ ''/v1/'' @ URL',
      Header = [(''Authorization'', ''Bearer '' @ apiKey c),
                (''content-type'', ''application/json'')],
      Body = data\<rparr>"

definition apiCall ::
  "client \<Rightarrow> env \<Rightarrow> string \<Rightarrow> string \<Rightarrow> body \<Rightarrow> request list
     \<Rightarrow> (int \<times> body \<times> go_error option) \<times> request list" where
  "apiCall c e method' URL' data sent =
     (let requestURL = url c @ ''/v1/'' @ URL'; req = new_request c method' URL' data in
      case NewRequest_err e method' requestURL of
        Some err \<Rightarrow>
          ((0, NotJson [], Some (Errorf ''failed to create HTTP request: %v'' [ArgError err])), sent)
      | None \<Rightarrow>
          (case (if debug c then DumpRequestOut_err e req else None) of
             Some err \<Rightarrow>
               ((0, NotJson [], Some (Errorf ''error dumping HTTP request: %v'' [ArgError err])), sent)
           | None \<Rightarrow>
               (case Do e sent req of
                  DoError err \<Rightarrow>
                    ((0, NotJson [], Some (Errorf ''HTTP request failed with: %v'' [ArgError err])),
                     sent @ [req])
                | Response status (Inl err) \<Rightarrow>
                    ((status, NotJson [], Some (Errorf ''HTTP request failed: %v'' [ArgError err])),
                     sent @ [req])
                | Response status (Inr res) \<Rightarrow>
                    ((status, res, None), sent @ [req]))))"

text \<open>Whether a call gets as far as \<open>Do\<close>.\<close>

definition dispatched :: "client \<Rightarrow> env \<Rightarrow> string \<Rightarrow> string \<Rightarrow> body \<Rightarrow> bool" where
  "dispatched c e method' URL' data =
     (NewRequest_err e method' (url c @ ''/v1/'' @ URL') = None \<and>
      (if debug c then DumpRequestOut_err e (new_request c method' URL' data) = None else True))"

subsection \<open>Resource operations\<close>

text \<open>
  The types \<^verbatim>\<open>Check\<close>, \<^verbatim>\<open>Group\<close>, \<^verbatim>\<open>Snippet\<close> and \<^verbatim>\<open>EnvironmentVariable\<close> are declared outside
  \<^verbatim>\<open>checkly.go\<close>; an operation takes the resource type as a type variable, with what
  \<^verbatim>\<open>json.Marshal\<close> and \<^verbatim>\<open>json.Decoder.Decode\<close> do for it as a parameter.
\<close>

record 'a codec =
  Marshal :: "'a \<Rightarrow> go_error + body"
  Decode :: "body \<Rightarrow> go_error + 'a"

definition Create ::
  "'a codec \<Rightarrow> client \<Rightarrow> env \<Rightarrow> 'a \<Rightarrow> request list \<Rightarrow> (go_error + 'a) \<times> request list" where
  "Create cd c e check sent =
     (case Marshal cd check of
        Inl err \<Rightarrow> (Inl err, sent)
      | Inr data \<Rightarrow>
          (case apiCall c e ''POST'' (withAutoAssignAlertsFlag ''checks'') data sent of
             ((status, res, Some err), sent') \<Rightarrow> (Inl err, sent')
           | ((status, res, None), sent') \<Rightarrow>
               if status \<noteq> 201
               then (Inl (Errorf ''unexpected response status %d: %q'' [ArgInt status, ArgBody res]),
                     sent')
               else (case Decode cd res of
                       Inl err \<Rightarrow>
                         (Inl (Errorf ''decoding error for data %s: %v'' [ArgBody res, ArgError err]),
                          sent')
                     | Inr result \<Rightarrow> (Inr result, sent'))))"

definition Update ::
  "'a codec \<Rightarrow> client \<Rightarrow> env \<Rightarrow> string \<Rightarrow> 'a \<Rightarrow> request list
     \<Rightarrow> (go_error + 'a) \<times> request list" where
  "Update cd c e ID check sent =
     (case Marshal cd check of
        Inl err \<Rightarrow> (Inl err, sent)
      | Inr data \<Rightarrow>
          (case apiCall c e ''PUT'' (withAutoAssignAlertsFlag (''checks/'' @ ID)) data sent of
             ((status, res, Some err), sent') \<Rightarrow> (Inl err, sent')
           | ((status, res, None), sent') \<Rightarrow>
               if status \<noteq> 200
               then (Inl (Errorf ''unexpected response status %d: %q'' [ArgInt status, ArgBody res]),
                     sent')
               else (case Decode cd res of
                       Inl err \<Rightarrow>
                         (Inl (Errorf ''decoding error for data %s: %v'' [ArgBody res, ArgError err]),
                          sent')
                     | Inr result \<Rightarrow> (Inr result, sent'))))"

definition Delete ::
  "client \<Rightarrow> env \<Rightarrow> string \<Rightarrow> request list \<Rightarrow> go_error option \<times> request list" where
  "Delete c e ID sent =
     (case apiCall c e ''DELETE'' (''checks/'' @ ID) nil_data sent of
        ((status, res, Some err), sent') \<Rightarrow> (Some err, sent')
      | ((status, res, None), sent') \<Rightarrow>
          if status \<noteq> 204
          then (Some (Errorf ''unexpected response status %d: %q'' [ArgInt status, ArgBody res]),
                sent')
          else (None, sent'))"

definition CreateGroup ::
  "'a codec \<Rightarrow> client \<Rightarrow> env \<Rightarrow> 'a \<Rightarrow> request list \<Rightarrow> (go_error + 'a) \<times> request list" where
  "CreateGroup cd c e grp sent =
     (case Marshal cd grp of
        Inl err \<Rightarrow> (Inl err, sent)
      | Inr data \<Rightarrow>
          (case apiCall c e ''POST'' (withAutoAssignAlertsFlag ''check-groups'') data sent of
             ((status, res, Some err), sent') \<Rightarrow> (Inl err, sent')
           | ((status, res, None), sent') \<Rightarrow>
               if status \<noteq> 201
               then (Inl (Errorf ''unexpected response status %d: %q'' [ArgInt status, ArgBody res]),
                     sent')
               else (case Decode cd res of
                       Inl err \<Rightarrow>
                         (Inl (Errorf ''decoding error for data %s: %v'' [ArgBody res, ArgError err]),
                          sent')
                     | Inr result \<Rightarrow> (Inr result, sent'))))"

definition UpdateGroup ::
  "'a codec \<Rightarrow> client \<Rightarrow> env \<Rightarrow> 64 word \<Rightarrow> 'a \<Rightarrow> request list
     \<Rightarrow> (go_error + 'a) \<times> request list" where
  "UpdateGroup cd c e ID grp sent =
     (case Marshal cd grp of
        Inl err \<Rightarrow> (Inl err, sent)
      | Inr data \<Rightarrow>
          (case apiCall c e ''PUT''
                  (withAutoAssignAlertsFlag (''check-groups/'' @ fmt_d (sint ID))) data sent of
             ((status, res, Some err), sent') \<Rightarrow> (Inl err, sent')
           | ((status, res, None), sent') \<Rightarrow>
               if status \<noteq> 200
               then (Inl (Errorf ''unexpected response status %d: %q'' [ArgInt status, ArgBody res]),
                     sent')
               else (case Decode cd res of
                       Inl err \<Rightarrow>
                         (Inl (Errorf ''decoding error for data %s: %v'' [ArgBody res, ArgError err]),
                          sent')
                     | Inr result \<Rightarrow> (Inr result, sent'))))"

definition DeleteGroup ::
  "client \<Rightarrow> env \<Rightarrow> 64 word \<Rightarrow> request list \<Rightarrow> go_error option \<times> request list" where
  "DeleteGroup c e ID sent =
     (case apiCall c e ''DELETE'' (''check-groups/'' @ fmt_d (sint ID)) nil_data sent of
        ((status, res, Some err), sent') \<Rightarrow> (Some err, sent')
      | ((status, res, None), sent') \<Rightarrow>
          if status \<noteq> 204
          then (Some (Errorf ''unexpected response status %d: %q'' [ArgInt status, ArgBody res]),
                sent')
          else (None, sent'))"

definition CreateSnippet ::
  "'a codec \<Rightarrow> client \<Rightarrow> env \<Rightarrow> 'a \<Rightarrow> request list \<Rightarrow> (go_error + 'a) \<times> request list" where
  "CreateSnippet cd c e snippet sent =
     (case Marshal cd snippet of
        Inl err \<Rightarrow> (Inl err, sent)
      | Inr data \<Rightarrow>
          (case apiCall c e ''POST'' ''snippets'' data sent of
             ((status, res, Some err), sent') \<Rightarrow> (Inl err, sent')
           | ((status, res, None), sent') \<Rightarrow>
               if status \<noteq> 201
               then (Inl (Errorf ''unexpected response status: %d, res: %q''
                            [ArgInt status, ArgBody res]),
                     sent')
               else (case Decode cd res of
                       Inl err \<Rightarrow>
                         (Inl (Errorf ''decoding error for data %s: %v'' [ArgBody res, ArgError err]),
                          sent')
                     | Inr result \<Rightarrow> (Inr result, sent'))))"

definition DeleteSnippet ::
  "client \<Rightarrow> env \<Rightarrow> 64 word \<Rightarrow> request list \<Rightarrow> go_error option \<times> request list" where
  "DeleteSnippet c e ID sent =
     (case apiCall c e ''DELETE'' (''snippets/'' @ fmt_d (sint ID)) nil_data sent of
        ((status, res, Some err), sent') \<Rightarrow> (Some err, sent')
      | ((status, res, None), sent') \<Rightarrow>
          if status \<noteq> 204
          then (Some (Errorf ''unexpected response status %d: %q'' [ArgInt status, ArgBody res]),
                sent')
          else (None, sent'))"

definition CreateEnvironmentVariable ::
  "'a codec \<Rightarrow> client \<Rightarrow> env \<Rightarrow> 'a \<Rightarrow> request list \<Rightarrow> (go_error + 'a) \<times> request list" where
  "CreateEnvironmentVariable cd c e envVar sent =
     (case Marshal cd envVar of
        Inl err \<Rightarrow> (Inl err, sent)
      | Inr data \<Rightarrow>
          (case apiCall c e ''POST'' ''variables'' data sent of
             ((status, res, Some err), sent') \<Rightarrow> (Inl err, sent')
           | ((status, res, None), sent') \<Rightarrow>
               if status \<noteq> 201
               then (Inl (Errorf ''unexpected response status: %d, res: %q''
                            [ArgInt status, ArgBody res]),
                     sent')
               else (case Decode cd res of
                       Inl err \<Rightarrow>
                         (Inl (Errorf ''decoding error for data %s: %v'' [ArgBody res, ArgError err]),
                          sent')
                     | Inr result \<Rightarrow> (Inr result, sent'))))"

definition DeleteEnvironmentVariable ::
  "client \<Rightarrow> env \<Rightarrow> string \<Rightarrow> request list \<Rightarrow> go_error option \<times> request list" where
  "DeleteEnvironmentVariable c e key sent =
     (case apiCall c e ''DELETE'' (''variables/'' @ key) nil_data sent of
        ((status, res, Some err), sent') \<Rightarrow> (Some err, sent')
      | ((status, res, None), sent') \<Rightarrow>
          if status \<noteq> 204
          then (Some (Errorf ''unexpected response status %d: %q'' [ArgInt status, ArgBody res]),
                sent')
          else (None, sent'))"

subsection \<open>\<^verbatim>\<open>GetCheckResults\<close>: the query string\<close>

text \<open>
  \<^verbatim>\<open>url.Values\<close> maps a key to the list of its values; \<^verbatim>\<open>Add\<close> appends a value to the list
  of its key, and \<^verbatim>\<open>Encode\<close> writes \<^verbatim>\<open>key=value\<close> pairs joined by \<^verbatim>\<open>&\<close>, sorted by key, with
  key and value escaped by \<^verbatim>\<open>url.QueryEscape\<close>: letters, digits and \<^verbatim>\<open>-_.~\<close> stay, a space
  becomes \<^verbatim>\<open>+\<close>, and any other byte becomes \<^verbatim>\<open>%\<close> and two upper-case hexadecimal digits.
\<close>

definition unreserved :: "char \<Rightarrow> bool" where
  "unreserved c =
     ((CHR ''a'' \<le> c \<and> c \<le> CHR ''z'') \<or> (CHR ''A'' \<le> c \<and> c \<le> CHR ''Z'') \<or>
      (CHR ''0'' \<le> c \<and> c \<le> CHR ''9'') \<or> c \<in> set ''-_.~'')"

definition upperhex :: "nat \<Rightarrow> char" where
  "upperhex d = ''0123456789ABCDEF'' ! d"

definition escape_byte :: "char \<Rightarrow> string" where
  "escape_byte c =
     (if c = CHR '' '' then ''+''
      else if unreserved c then [c]
      else [CHR ''%'', upperhex (of_char c div 16), upperhex (of_char c mod 16)])"

definition QueryEscape :: "string \<Rightarrow> string" where
  "QueryEscape s = concat (map escape_byte s)"

type_synonym Values = "(string \<times> string list) list"

definition Values_Add :: "string \<Rightarrow> string \<Rightarrow> Values \<Rightarrow> Values" where
  "Values_Add key v q =
     (case map_of q key of
        None \<Rightarrow> q @ [(key, [v])]
      | Some vs \<Rightarrow> AList.update key (vs @ [v]) q)"

fun join :: "string \<Rightarrow> string list \<Rightarrow> string" where
  "join sep [] = []"
| "join sep [x] = x"
| "join sep (x # y # ys) = x @ sep @ join sep (y # ys)"

definition Values_Encode :: "Values \<Rightarrow> string" where
  "Values_Encode q =
     join ''&''
       (concat (map (\<lambda>kvs. map (\<lambda>v. QueryEscape (fst kvs) @ ''='' @ QueryEscape v) (snd kvs))
                    (sort_key fst q)))"

text \<open>
  Modelled from the spec: the type \<^verbatim>\<open>CheckResultsFilter\<close> is not in \<^verbatim>\<open>checkly.go\<close>. It is an
  input object with page, limit, time range, check type, a flag for failures and a
  location string; the record has the fields that \<^verbatim>\<open>GetCheckResults\<close> reads. The values of the constants \<^verbatim>\<open>TypeBrowser\<close> and \<^verbatim>\<open>TypeAPI\<close> are
  parameters. \<open>GetCheckResults_uri\<close> is the variable \<^verbatim>\<open>uri\<close> of \<^verbatim>\<open>GetCheckResults\<close> at the call
  of \<^verbatim>\<open>apiCall\<close>; the filter is \<open>None\<close> for a nil pointer.
\<close>

record CheckResultsFilter =
  Limit :: "64 word"
  Page :: "64 word"
  Location :: string
  To :: "64 word"
  From :: "64 word"
  CheckType :: string
  HasFailures :: bool

text \<open>The zero value \<^verbatim>\<open>CheckResultsFilter{}\<close>.\<close>

definition CheckResultsFilter_zero :: CheckResultsFilter where
  "CheckResultsFilter_zero =
     \<lparr>Limit = 0, Page = 0, Location = [], To = 0, From = 0, CheckType = [],
      HasFailures = False\<rparr>"

definition GetCheckResults_uri ::
  "string \<Rightarrow> string \<Rightarrow> string \<Rightarrow> CheckResultsFilter option \<Rightarrow> string" where
  "GetCheckResults_uri TypeBrowser TypeAPI checkID filters =
     (let uri = ''check-results/'' @ checkID in
      case filters of
        None \<Rightarrow> uri
      | Some fs \<Rightarrow>
          (let q = [];
               q = (if 0 < sint (Page fs) then Values_Add ''page'' (fmt_d (sint (Page fs))) q else q);
               q = (if 0 < sint (Limit fs) then Values_Add ''limit'' (fmt_d (sint (Limit fs))) q
                    else q);
               q = (if 0 < sint (From fs) then Values_Add ''from'' (fmt_d (sint (From fs))) q else q);
               q = (if 0 < sint (To fs) then Values_Add ''to'' (fmt_d (sint (To fs))) q else q);
               q = (if CheckType fs = TypeBrowser \<or> CheckType fs = TypeAPI
                    then Values_Add ''checkType'' (CheckType fs) q else q);
               q = (if HasFailures fs then Values_Add ''hasFailures'' ''1'' q else q);
               q = (if 0 < length (Location fs) then Values_Add ''location'' (Location fs) q else q)
           in uri @ ''?'' @ Values_Encode q))"

definition GetCheckResults ::
  "string \<Rightarrow> string \<Rightarrow> 'a codec \<Rightarrow> client \<Rightarrow> env \<Rightarrow> string \<Rightarrow> CheckResultsFilter option
     \<Rightarrow> request list \<Rightarrow> (go_error + 'a) \<times> request list" where
  "GetCheckResults TypeBrowser TypeAPI cd c e checkID filters sent =
     (case apiCall c e ''GET'' (GetCheckResults_uri TypeBrowser TypeAPI checkID filters)
             nil_data sent of
        ((status, res, Some err), sent') \<Rightarrow> (Inl err, sent')
      | ((status, res, None), sent') \<Rightarrow>
          if status \<noteq> 200
          then (Inl (Errorf ''unexpected response status %d: %q'' [ArgInt status, ArgBody res]),
                sent')
          else (case Decode cd res of
                  Inl err \<Rightarrow>
                    (Inl (Errorf ''decoding error for data %q: %v'' [ArgBody res, ArgError err]),
                     sent')
                | Inr result \<Rightarrow> (Inr result, sent')))"

subsection \<open>Go values and \<^verbatim>\<open>encoding/json\<close>\<close>

text \<open>
  The values an \<^verbatim>\<open>interface{}\<close> holds in \<^verbatim>\<open>checkly.go\<close>: what the JSON decoder makes (nil,
  \<^verbatim>\<open>bool\<close>, \<^verbatim>\<open>float64\<close>, \<^verbatim>\<open>string\<close>, \<^verbatim>\<open>[]interface{}\<close>, \<^verbatim>\<open>map[string]interface{}\<close>) and what
  \<^verbatim>\<open>payloadFromAlertChannel\<close> stores (\<^verbatim>\<open>int64\<close>, \<^verbatim>\<open>int\<close>). A \<^verbatim>\<open>float64\<close> is the rational number
  it stands for (JSON has no NaN and no infinity). A map is an association list with
  distinct keys.
\<close>

datatype go_value =
    GoNil
  | GoBool bool
  | GoInt "64 word"
  | GoInt64 "64 word"
  | GoFloat64 rat
  | GoString string
  | GoSlice "go_value list"
  | GoMap "(string \<times> go_value) list"


text \<open>
  \<^verbatim>\<open>strconv.ParseFloat\<close> rounds the value of a literal to the nearest \<^verbatim>\<open>float64\<close>, ties to
  even: 53 significant bits, the exponent of the last bit not below \<open>-1074\<close>. It fails
  with a range error (\<open>None\<close>) when the rounded value reaches \<open>2\<^sup>1\<^sup>0\<^sup>2\<^sup>4\<close>. \<open>binade q\<close> is the
  \<open>k\<close> with \<open>2\<^sup>k \<le> |q| < 2\<^sup>k\<^sup>+\<^sup>1\<close>.

  The conversions \<^verbatim>\<open>int64(f)\<close> and \<^verbatim>\<open>int(f)\<close> drop the fraction. When the result does not fit,
  Go leaves it to the implementation; the model takes the value of amd64.
\<close>

definition round_half_even :: "rat \<Rightarrow> int" where
  "round_half_even q =
     (let f = \<lfloor>q\<rfloor>; d = q - of_int f in
      if d < 1 / 2 then f
      else if 1 / 2 < d then f + 1
      else if even f then f else f + 1)"

definition binade :: "rat \<Rightarrow> int" where
  "binade q =
     (let (a, b) = quotient_of \<bar>q\<bar>; k = bitlen a - bitlen b in
      if 2 powi k \<le> \<bar>q\<bar> then k else k - 1)"

definition ParseFloat :: "rat \<Rightarrow> rat option" where
  "ParseFloat q =
     (if q = 0 then Some 0
      else let s = max (binade q) (- 1022) - 52;
               f = of_int (round_half_even (q / 2 powi s)) * 2 powi s
           in if \<bar>f\<bar> < 2 powi 1024 then Some f else None)"

definition literal_value :: "int \<Rightarrow> int \<Rightarrow> rat" where
  "literal_value m e = of_int m * 10 powi e"

definition trunc :: "rat \<Rightarrow> int" where
  "trunc q = (if 0 \<le> q then \<lfloor>q\<rfloor> else \<lceil>q\<rceil>)"

definition int64_of_float64 :: "rat \<Rightarrow> 64 word" where
  "int64_of_float64 f =
     (let t = trunc f in
      if - (2 ^ 63) \<le> t \<and> t < 2 ^ 63 then word_of_int t else 0x8000000000000000)"


text \<open>
  Decoding into an \<^verbatim>\<open>interface{}\<close>: every number becomes a \<^verbatim>\<open>float64\<close>, and of the members of
  an object with the same key the last one stays. A number out of the range of
  \<^verbatim>\<open>float64\<close> makes \<^verbatim>\<open>Decode\<close> return an error.
\<close>

fun decode_value :: "json \<Rightarrow> go_error + go_value"
  and decode_elements :: "json list \<Rightarrow> go_error + go_value list"
  and decode_members :: "(string \<times> json) list \<Rightarrow> go_error + (string \<times> go_value) list" where
  "decode_value JNull = Inr GoNil"
| "decode_value (JBool b) = Inr (GoBool b)"
| "decode_value (JNumber m e) =
     (case ParseFloat (literal_value m e) of
        None \<Rightarrow> Inl UnmarshalTypeError
      | Some f \<Rightarrow> Inr (GoFloat64 f))"
| "decode_value (JString s) = Inr (GoString s)"
| "decode_value (JArray js) =
     (case decode_elements js of Inl err \<Rightarrow> Inl err | Inr vs \<Rightarrow> Inr (GoSlice vs))"
| "decode_value (JObject kvs) =
     (case decode_members kvs of Inl err \<Rightarrow> Inl err | Inr m \<Rightarrow> Inr (GoMap m))"
| "decode_elements [] = Inr []"
| "decode_elements (j # js) =
     (case decode_value j of
        Inl err \<Rightarrow> Inl err
      | Inr v \<Rightarrow> (case decode_elements js of Inl err \<Rightarrow> Inl err | Inr vs \<Rightarrow> Inr (v # vs)))"
| "decode_members [] = Inr []"
| "decode_members ((k, j) # kvs) =
     (case decode_value j of
        Inl err \<Rightarrow> Inl err
      | Inr v \<Rightarrow>
          (case decode_members kvs of
             Inl err \<Rightarrow> Inl err
           | Inr m \<Rightarrow> Inr (if k \<in> set (map fst m) then m else (k, v) # m)))"


text \<open>
  \<^verbatim>\<open>json.Marshal\<close> writes the members of a map sorted by key. For a \<^verbatim>\<open>float64\<close> Go writes the
  shortest literal that reads back as the same \<^verbatim>\<open>float64\<close>; the model writes the exact
  decimal expansion, which reads back the same. Strings are taken to be valid UTF-8.
  \<^verbatim>\<open>json.Marshal\<close> has no error for the values of \<^typ>\<open>go_value\<close>.

  \<open>json_Decode_map\<close> is \<^verbatim>\<open>json.NewDecoder(...).Decode(&result)\<close> for an empty
  \<^verbatim>\<open>map[string]interface{}\<close>.
\<close>

text \<open>The member of an object that the decoder keeps for a key: the last one.\<close>

definition json_member :: "(string \<times> json) list \<Rightarrow> string \<Rightarrow> json option" where
  "json_member kvs k = map_of (rev kvs) k"

definition float_literal :: "rat \<Rightarrow> json" where
  "float_literal f = (let (a, b) = quotient_of f; k = bitlen b - 1 in JNumber (a * 5 ^ nat k) (- k))"

fun marshal_value :: "go_value \<Rightarrow> json" where
  "marshal_value GoNil = JNull"
| "marshal_value (GoBool b) = JBool b"
| "marshal_value (GoInt i) = JNumber (sint i) 0"
| "marshal_value (GoInt64 i) = JNumber (sint i) 0"
| "marshal_value (GoFloat64 f) = float_literal f"
| "marshal_value (GoString s) = JString s"
| "marshal_value (GoSlice vs) = JArray (map marshal_value vs)"
| "marshal_value (GoMap m) = JObject (sort_key fst (map (\<lambda>kv. (fst kv, marshal_value (snd kv))) m))"


definition json_Marshal :: "go_value \<Rightarrow> go_error + body" where
  "json_Marshal v = Inr (Json (marshal_value v))"

definition json_Decode_map :: "body \<Rightarrow> go_error + (string \<times> go_value) list" where
  "json_Decode_map response =
     (case response of
        NotJson s \<Rightarrow> Inl SyntaxError
      | Json JNull \<Rightarrow> Inr []
      | Json (JObject kvs) \<Rightarrow> decode_members kvs
      | Json _ \<Rightarrow> Inl UnmarshalTypeError)"


subsection \<open>Alert channels\<close>

text \<open>
  Modelled from the spec: the type \<^verbatim>\<open>AlertChannel\<close> is not in \<^verbatim>\<open>checkly.go\<close>. It has an
  identifier, a type tag, a configuration whose shape depends on the tag, and the
  optional fields \<^verbatim>\<open>sendRecovery\<close>, \<^verbatim>\<open>sendFailure\<close>, \<^verbatim>\<open>sendDegraded\<close>, \<^verbatim>\<open>sslExpiry\<close> and
  \<^verbatim>\<open>sslExpiryThreshold\<close>, unset or set. The record has the fields that \<^verbatim>\<open>checkly.go\<close> reads
  and writes (with the types it uses them at), and \<open>Config\<close> for the typed configuration
  behind \<^verbatim>\<open>GetConfig\<close> and \<^verbatim>\<open>SetConfig\<close>. The type of the typed configurations is a type
  variable.
\<close>

record 'cfg AlertChannel =
  ID :: "64 word"
  Type :: string
  Config :: "'cfg option"
  SendRecovery :: "bool option"
  SendFailure :: "bool option"
  SendDegraded :: "bool option"
  SSLExpiry :: "bool option"
  SSLExpiryThreshold :: "64 word option"

abbreviation AlertChannel_zero :: "'cfg AlertChannel" where
  "AlertChannel_zero \<equiv>
     \<lparr>ID = 0, Type = [], Config = None, SendRecovery = None, SendFailure = None,
      SendDegraded = None, SSLExpiry = None, SSLExpiryThreshold = None\<rparr>"


text \<open>
  Modelled from the spec: \<^verbatim>\<open>AlertChannelConfigFromJSON\<close>, \<^verbatim>\<open>GetConfig\<close> and \<^verbatim>\<open>SetConfig\<close> are not
  in \<^verbatim>\<open>checkly.go\<close>. The set of supported types is a closed registry mapping the type tag
  to the parser of its configuration; if the type is not found in the registry, or the
  parser rejects the configuration, decoding fails with an error. \<^verbatim>\<open>GetConfig\<close> gives the
  type-specific configuration, serialized structurally by a function of the variant
  (the parameter \<open>enc\<close>), and \<^verbatim>\<open>SetConfig\<close> stores the typed configuration.
\<close>

type_synonym 'cfg registry = "(string \<times> (body \<Rightarrow> go_error + 'cfg)) list"

definition AlertChannelConfigFromJSON :: "'cfg registry \<Rightarrow> string \<Rightarrow> body \<Rightarrow> go_error + 'cfg" where
  "AlertChannelConfigFromJSON reg channelType cfgJSON =
     (case map_of reg channelType of
        None \<Rightarrow> Inl (UnsupportedType channelType)
      | Some parser \<Rightarrow> parser cfgJSON)"

definition GetConfig :: "('cfg \<Rightarrow> go_value) \<Rightarrow> 'cfg AlertChannel \<Rightarrow> go_value" where
  "GetConfig enc ac = (case Config ac of None \<Rightarrow> GoNil | Some cfg \<Rightarrow> enc cfg)"

definition SetConfig :: "'cfg \<Rightarrow> 'cfg AlertChannel \<Rightarrow> 'cfg AlertChannel" where
  "SetConfig cfg ac = ac\<lparr>Config := Some cfg\<rparr>"


subsection \<open>\<^verbatim>\<open>payloadFromAlertChannel\<close> and \<^verbatim>\<open>alertChannelFromJSON\<close>\<close>

definition payloadFromAlertChannel ::
  "('cfg \<Rightarrow> go_value) \<Rightarrow> 'cfg AlertChannel \<Rightarrow> (string \<times> go_value) list" where
  "payloadFromAlertChannel enc ac =
     (let payload = [(''id'', GoInt64 (ID ac)),
                     (''type'', GoString (Type ac)),
                     (''config'', GetConfig enc ac)];
          payload = (case SendRecovery ac of
                       None \<Rightarrow> payload
                     | Some b \<Rightarrow> AList.update ''sendRecovery'' (GoBool b) payload);
          payload = (case SendDegraded ac of
                       None \<Rightarrow> payload
                     | Some b \<Rightarrow> AList.update ''sendDegraded'' (GoBool b) payload);
          payload = (case SendFailure ac of
                       None \<Rightarrow> payload
                     | Some b \<Rightarrow> AList.update ''sendFailure'' (GoBool b) payload);
          payload = (case SSLExpiry ac of
                       None \<Rightarrow> payload
                     | Some b \<Rightarrow> AList.update ''sslExpiry'' (GoBool b) payload);
          payload = (case SSLExpiryThreshold ac of
                       None \<Rightarrow> payload
                     | Some t \<Rightarrow> AList.update ''sslExpiryThreshold'' (GoInt t) payload)
      in payload)"


text \<open>
  \<^verbatim>\<open>alertChannelFromJSON\<close> returns an alert channel, returns an error, or panics at a type
  assertion; \<open>Panic k\<close> is the panic at the assertion on the value of the key \<open>k\<close>. Each
  \<open>from_k\<close> is the block \<^verbatim>\<open>if v, ok := result[k]; ok { ... }\<close> of the source, given the
  outcome of the lookup.
\<close>

datatype failure = Err go_error | Panic string

definition and_then :: "failure + 'a \<Rightarrow> ('a \<Rightarrow> failure + 'b) \<Rightarrow> failure + 'b" where
  "and_then x f = (case x of Inl err \<Rightarrow> Inl err | Inr a \<Rightarrow> f a)"

definition from_id :: "go_value option \<Rightarrow> 'cfg AlertChannel \<Rightarrow> failure + 'cfg AlertChannel" where
  "from_id r resultAc =
     (case r of
        None \<Rightarrow> Inr resultAc
      | Some (GoInt i) \<Rightarrow> Inl (Panic ''id'')
      | Some (GoInt64 i) \<Rightarrow> Inr (resultAc\<lparr>ID := i\<rparr>)
      | Some (GoFloat64 f) \<Rightarrow> Inr (resultAc\<lparr>ID := int64_of_float64 f\<rparr>)
      | Some _ \<Rightarrow> Inr resultAc)"

definition from_type :: "go_value option \<Rightarrow> 'cfg AlertChannel \<Rightarrow> failure + 'cfg AlertChannel" where
  "from_type r resultAc =
     (case r of
        None \<Rightarrow> Inr resultAc
      | Some (GoString s) \<Rightarrow> Inr (resultAc\<lparr>Type := s\<rparr>)
      | Some _ \<Rightarrow> Inl (Panic ''type''))"

definition from_sendRecovery ::
  "go_value option \<Rightarrow> 'cfg AlertChannel \<Rightarrow> failure + 'cfg AlertChannel" where
  "from_sendRecovery r resultAc =
     (case r of
        None \<Rightarrow> Inr resultAc
      | Some (GoBool sr) \<Rightarrow> Inr (resultAc\<lparr>SendRecovery := Some sr\<rparr>)
      | Some _ \<Rightarrow> Inl (Panic ''sendRecovery''))"

definition from_sendFailure ::
  "go_value option \<Rightarrow> 'cfg AlertChannel \<Rightarrow> failure + 'cfg AlertChannel" where
  "from_sendFailure r resultAc =
     (case r of
        None \<Rightarrow> Inr resultAc
      | Some (GoBool sf) \<Rightarrow> Inr (resultAc\<lparr>SendFailure := Some sf\<rparr>)
      | Some _ \<Rightarrow> Inl (Panic ''sendFailure''))"

definition from_sendDegraded ::
  "go_value option \<Rightarrow> 'cfg AlertChannel \<Rightarrow> failure + 'cfg AlertChannel" where
  "from_sendDegraded r resultAc =
     (case r of
        None \<Rightarrow> Inr resultAc
      | Some (GoBool sd) \<Rightarrow> Inr (resultAc\<lparr>SendDegraded := Some sd\<rparr>)
      | Some _ \<Rightarrow> Inl (Panic ''sendDegraded''))"

definition from_sslExpiry ::
  "go_value option \<Rightarrow> 'cfg AlertChannel \<Rightarrow> failure + 'cfg AlertChannel" where
  "from_sslExpiry r resultAc =
     (case r of
        None \<Rightarrow> Inr resultAc
      | Some (GoBool expiry) \<Rightarrow> Inr (resultAc\<lparr>SSLExpiry := Some expiry\<rparr>)
      | Some _ \<Rightarrow> Inl (Panic ''sslExpiry''))"

definition from_sslExpiryThreshold ::
  "go_value option \<Rightarrow> 'cfg AlertChannel \<Rightarrow> failure + 'cfg AlertChannel" where
  "from_sslExpiryThreshold r resultAc =
     (case r of
        None \<Rightarrow> Inr resultAc
      | Some (GoInt t) \<Rightarrow> Inr (resultAc\<lparr>SSLExpiryThreshold := Some t\<rparr>)
      | Some (GoInt64 t) \<Rightarrow> Inl (Panic ''sslExpiryThreshold'')
      | Some (GoFloat64 f) \<Rightarrow> Inr (resultAc\<lparr>SSLExpiryThreshold := Some (int64_of_float64 f)\<rparr>)
      | Some _ \<Rightarrow> Inr resultAc)"

definition from_config ::
  "'cfg registry \<Rightarrow> go_value option \<Rightarrow> 'cfg AlertChannel \<Rightarrow> failure + 'cfg AlertChannel" where
  "from_config reg r resultAc =
     (case r of
        None \<Rightarrow> Inr resultAc
      | Some cfg \<Rightarrow>
          (case json_Marshal cfg of
             Inl err \<Rightarrow> Inl (Err err)
           | Inr cfgJSON \<Rightarrow>
               (case AlertChannelConfigFromJSON reg (Type resultAc) cfgJSON of
                  Inl err \<Rightarrow> Inl (Err err)
                | Inr c \<Rightarrow> Inr (SetConfig c resultAc))))"

text \<open>
  The type assertion \<^verbatim>\<open>v.(string)\<close>, or \<^verbatim>\<open>v.(bool)\<close>, of a block holds when the key is absent
  (the block is skipped) or its value has that type.
\<close>

definition absent_or_string :: "go_value option \<Rightarrow> bool" where
  "absent_or_string r = (case r of None \<Rightarrow> True | Some (GoString s) \<Rightarrow> True | Some _ \<Rightarrow> False)"

definition absent_or_bool :: "go_value option \<Rightarrow> bool" where
  "absent_or_bool r = (case r of None \<Rightarrow> True | Some (GoBool b) \<Rightarrow> True | Some _ \<Rightarrow> False)"

text \<open>
  What a block leaves in its field, from the outcome of the lookup and the value the
  field had, when its type assertions hold.
\<close>

definition decoded_int64 :: "go_value option \<Rightarrow> 64 word \<Rightarrow> 64 word" where
  "decoded_int64 r old =
     (case r of
        Some (GoInt64 i) \<Rightarrow> i
      | Some (GoFloat64 f) \<Rightarrow> int64_of_float64 f
      | _ \<Rightarrow> old)"

definition decoded_string :: "go_value option \<Rightarrow> string \<Rightarrow> string" where
  "decoded_string r old = (case r of Some (GoString s) \<Rightarrow> s | _ \<Rightarrow> old)"

definition decoded_bool :: "go_value option \<Rightarrow> bool option \<Rightarrow> bool option" where
  "decoded_bool r old = (case r of Some (GoBool b) \<Rightarrow> Some b | _ \<Rightarrow> old)"

definition decoded_int :: "go_value option \<Rightarrow> 64 word option \<Rightarrow> 64 word option" where
  "decoded_int r old =
     (case r of
        Some (GoInt t) \<Rightarrow> Some t
      | Some (GoFloat64 f) \<Rightarrow> Some (int64_of_float64 f)
      | _ \<Rightarrow> old)"

definition alertChannelFromJSON :: "'cfg registry \<Rightarrow> body \<Rightarrow> failure + 'cfg AlertChannel" where
  "alertChannelFromJSON reg response =
     (case json_Decode_map response of
        Inl err \<Rightarrow>
          Inl (Err (Errorf ''UpdateAlertChannel: decoding error for data Res(%s), Err(%w)''
                      [ArgBody response, ArgError err]))
      | Inr result \<Rightarrow>
          and_then (from_id (map_of result ''id'') AlertChannel_zero) (\<lambda>resultAc.
          and_then (from_type (map_of result ''type'') resultAc) (\<lambda>resultAc.
          and_then (from_sendRecovery (map_of result ''sendRecovery'') resultAc) (\<lambda>resultAc.
          and_then (from_sendFailure (map_of result ''sendFailure'') resultAc) (\<lambda>resultAc.
          and_then (from_sendDegraded (map_of result ''sendDegraded'') resultAc) (\<lambda>resultAc.
          and_then (from_sslExpiry (map_of result ''sslExpiry'') resultAc) (\<lambda>resultAc.
          and_then (from_sslExpiryThreshold (map_of result ''sslExpiryThreshold'') resultAc)
            (\<lambda>resultAc.
          from_config reg (map_of result ''config'') resultAc))))))))"

definition CreateAlertChannel ::
  "'cfg registry \<Rightarrow> ('cfg \<Rightarrow> go_value) \<Rightarrow> client \<Rightarrow> env \<Rightarrow> 'cfg AlertChannel \<Rightarrow> request list
     \<Rightarrow> (failure + 'cfg AlertChannel) \<times> request list" where
  "CreateAlertChannel reg enc c e ac sent =
     (let payload = payloadFromAlertChannel enc ac in
      case json_Marshal (GoMap payload) of
        Inl err \<Rightarrow> (Inl (Err err), sent)
      | Inr data \<Rightarrow>
          (case apiCall c e ''POST'' ''alert-channels'' data sent of
             ((status, res, Some err), sent') \<Rightarrow> (Inl (Err err), sent')
           | ((status, res, None), sent') \<Rightarrow>
               if status \<noteq> 200 \<and> status \<noteq> 201
               then (Inl (Err (Errorf ''unexpected response status: %d, res: %q, payload: %v''
                                 [ArgInt status, ArgBody res, ArgBody data])),
                     sent')
               else (alertChannelFromJSON reg res, sent')))"

definition DeleteAlertChannel ::
  "client \<Rightarrow> env \<Rightarrow> 64 word \<Rightarrow> request list \<Rightarrow> go_error option \<times> request list" where
  "DeleteAlertChannel c e ID' sent =
     (case apiCall c e ''DELETE'' (''alert-channels/'' @ fmt_d (sint ID')) nil_data sent of
        ((status, res, Some err), sent') \<Rightarrow> (Some err, sent')
      | ((status, res, None), sent') \<Rightarrow>
          if status \<noteq> 204
          then (Some (Errorf ''unexpected response status %d: %q'' [ArgInt status, ArgBody res]),
                sent')
          else (None, sent'))"


subsection \<open>The message of an error\<close>

text \<open>
  The bytes of a message body. For a body that is no JSON text they are the text itself.
  Of a JSON text the model keeps the value only, and its bytes are taken to be the compact
  text that \<^verbatim>\<open>json.Marshal\<close> writes for the value: no white space, the members in the order
  of the object, a string between double quotes with the double quote and the backslash
  behind a backslash, the line feed, the carriage return and the tab as \<^verbatim>\<open>\n\<close>, \<^verbatim>\<open>\r\<close> and
  \<^verbatim>\<open>\t\<close>, and the other control characters and \<^verbatim>\<open><\<close>, \<^verbatim>\<open>>\<close>, \<^verbatim>\<open>&\<close> as \<^verbatim>\<open>\u00XX\<close>. The bytes
  above \<^verbatim>\<open>0x7F\<close> stay (the strings are taken to be valid UTF-8, without the line
  separators \<^verbatim>\<open>U+2028\<close> and \<^verbatim>\<open>U+2029\<close>). A number \<open>m \<times> 10\<^sup>e\<close> is written as the digits of \<open>m\<close>,
  followed by \<^verbatim>\<open>e\<close> and the exponent when \<open>e \<noteq> 0\<close>.
\<close>

definition lowerhex :: "nat \<Rightarrow> char" where
  "lowerhex d = ''0123456789abcdef'' ! d"

definition json_escape :: "char \<Rightarrow> string" where
  "json_escape c =
     (if c = CHR 0x22 then [CHR 0x5C, CHR 0x22]
      else if c = CHR 0x5C then [CHR 0x5C, CHR 0x5C]
      else if c = CHR 0x0A then [CHR 0x5C, CHR ''n'']
      else if c = CHR 0x0D then [CHR 0x5C, CHR ''r'']
      else if c = CHR 0x09 then [CHR 0x5C, CHR ''t'']
      else if of_char c < (32 :: nat) \<or> c \<in> set ''<>&''
      then [CHR 0x5C, CHR ''u'', CHR ''0'', CHR ''0'',
            lowerhex (of_char c div 16), lowerhex (of_char c mod 16)]
      else [c])"

definition json_string :: "string \<Rightarrow> string" where
  "json_string s = [CHR 0x22] @ concat (map json_escape s) @ [CHR 0x22]"

definition number_text :: "int \<Rightarrow> int \<Rightarrow> string" where
  "number_text m e = (if e = 0 then fmt_d m else fmt_d m @ ''e'' @ fmt_d e)"

fun json_text :: "json \<Rightarrow> string" where
  "json_text JNull = ''null''"
| "json_text (JBool b) = (if b then ''true'' else ''false'')"
| "json_text (JNumber m e) = number_text m e"
| "json_text (JString s) = json_string s"
| "json_text (JArray js) = ''['' @ join '','' (map json_text js) @ '']''"
| "json_text (JObject kvs) =
     ''{'' @ join '','' (map (\<lambda>kv. json_string (fst kv) @ '':'' @ json_text (snd kv)) kvs) @ ''}''"

definition body_text :: "body \<Rightarrow> string" where
  "body_text b = (case b of Json j \<Rightarrow> json_text j | NotJson s \<Rightarrow> s)"


text \<open>
  \<^verbatim>\<open>strconv.Quote\<close>, which the verb \<^verbatim>\<open>%q\<close> applies to a string: the string between double
  quotes, in which the double quote and the backslash get a backslash, any other printable
  ASCII character stays, and a control character gets its Go escape (\<^verbatim>\<open>\a\<close>, \<^verbatim>\<open>\b\<close>, \<^verbatim>\<open>\f\<close>,
  \<^verbatim>\<open>\n\<close>, \<^verbatim>\<open>\r\<close>, \<^verbatim>\<open>\t\<close>, \<^verbatim>\<open>\v\<close>, and \<^verbatim>\<open>\xXX\<close> for the others). What it writes for a run of
  bytes above \<^verbatim>\<open>0x7F\<close> depends on the Unicode tables (a printable rune stays, any other
  is escaped): it is the parameter \<open>runes\<close>. A \<open>plain\<close> character is one that stays.
\<close>

definition quote_ascii :: "char \<Rightarrow> string" where
  "quote_ascii c =
     (if c = CHR 0x22 then [CHR 0x5C, CHR 0x22]
      else if c = CHR 0x5C then [CHR 0x5C, CHR 0x5C]
      else if (32 :: nat) \<le> of_char c \<and> of_char c \<le> (126 :: nat) then [c]
      else if c = CHR 0x07 then [CHR 0x5C, CHR ''a'']
      else if c = CHR 0x08 then [CHR 0x5C, CHR ''b'']
      else if c = CHR 0x0C then [CHR 0x5C, CHR ''f'']
      else if c = CHR 0x0A then [CHR 0x5C, CHR ''n'']
      else if c = CHR 0x0D then [CHR 0x5C, CHR ''r'']
      else if c = CHR 0x09 then [CHR 0x5C, CHR ''t'']
      else if c = CHR 0x0B then [CHR 0x5C, CHR ''v'']
      else [CHR 0x5C, CHR ''x'', lowerhex (of_char c div 16), lowerhex (of_char c mod 16)])"

definition high :: "char \<Rightarrow> bool" where
  "high c = ((128 :: nat) \<le> of_char c)"

function quote_bytes :: "(string \<Rightarrow> string) \<Rightarrow> string \<Rightarrow> string" where
  "quote_bytes runes [] = []"
| "quote_bytes runes (c # s) =
     (if high c then runes (c # takeWhile high s) @ quote_bytes runes (dropWhile high s)
      else quote_ascii c @ quote_bytes runes s)"
  by pat_completeness auto
termination
  by (relation "measure (\<lambda>(runes, s). length s)")
     (auto simp add: length_dropWhile_le less_Suc_eq_le)

definition strconv_Quote :: "(string \<Rightarrow> string) \<Rightarrow> string \<Rightarrow> string" where
  "strconv_Quote runes s = [CHR 0x22] @ quote_bytes runes s @ [CHR 0x22]"

definition plain :: "char \<Rightarrow> bool" where
  "plain c =
     ((32 :: nat) \<le> of_char c \<and> of_char c \<le> (126 :: nat) \<and> c \<noteq> CHR 0x22 \<and> c \<noteq> CHR 0x5C)"

text \<open>
  \<^verbatim>\<open>fmt.Sprintf\<close> for the verbs of \<^verbatim>\<open>checkly.go\<close>: \<^verbatim>\<open>%d\<close> writes an integer in decimal, \<^verbatim>\<open>%s\<close>
  and \<^verbatim>\<open>%v\<close> write a string as it is, and \<^verbatim>\<open>%q\<close> writes it quoted. The result is \<open>None\<close>
  where the model has no text: for an error as argument (the text of the error of a
  library is not modelled), for a verb that does not fit its argument, and when the
  number of arguments is not the number of verbs. \<open>Error_message\<close> is the method
  \<^verbatim>\<open>Error()\<close> of an error made by \<^verbatim>\<open>fmt.Errorf\<close>.
\<close>

definition verb :: "(string \<Rightarrow> string) \<Rightarrow> char \<Rightarrow> fmt_arg \<Rightarrow> string option" where
  "verb runes v a =
     (case a of
        ArgInt n \<Rightarrow> (if v = CHR ''d'' \<or> v = CHR ''v'' then Some (fmt_d n) else None)
      | ArgString s \<Rightarrow>
          (if v = CHR ''s'' \<or> v = CHR ''v'' then Some s
           else if v = CHR ''q'' then Some (strconv_Quote runes s)
           else None)
      | ArgBody b \<Rightarrow>
          (if v = CHR ''s'' \<or> v = CHR ''v'' then Some (body_text b)
           else if v = CHR ''q'' then Some (strconv_Quote runes (body_text b))
           else None)
      | ArgError err \<Rightarrow> None)"

fun Sprintf :: "(string \<Rightarrow> string) \<Rightarrow> string \<Rightarrow> fmt_arg list \<Rightarrow> string option" where
  "Sprintf runes [] args = (if args = [] then Some [] else None)"
| "Sprintf runes [c] args = (if c = CHR ''%'' \<or> args \<noteq> [] then None else Some [c])"
| "Sprintf runes (c # v # format) args =
     (if c = CHR ''%''
      then (case args of
              [] \<Rightarrow> None
            | a # args' \<Rightarrow>
                (case verb runes v a of
                   None \<Rightarrow> None
                 | Some s \<Rightarrow> map_option (append s) (Sprintf runes format args')))
      else map_option (Cons c) (Sprintf runes (v # format) args))"

definition Error_message :: "(string \<Rightarrow> string) \<Rightarrow> go_error \<Rightarrow> string option" where
  "Error_message runes err =
     (case err of Errorf format args \<Rightarrow> Sprintf runes format args | _ \<Rightarrow> None)"


subsection \<open>Examples\<close>

text \<open>
  A client without debug sink, a network that answers every request with the same
  status and body, a resource whose JSON form is a string, a registry of two alert
  channel types, and a parser of webhook configurations that reads the name only.
\<close>

definition example_client :: client where
  "example_client = \<lparr>apiKey = ''secret'', url = ''https://api.example.test'', debug = False\<rparr>"

definition answering :: "int \<Rightarrow> body \<Rightarrow> env" where
  "answering status res =
     \<lparr>NewRequest_err = (\<lambda>m u. None),
      DumpRequestOut_err = (\<lambda>r. None),
      Do = (\<lambda>sent r. Response status (Inr res))\<rparr>"

definition example_codec :: "string codec" where
  "example_codec =
     \<lparr>Marshal = (\<lambda>s. Inr (Json (JString s))),
      Decode = (\<lambda>b. case b of Json (JString s) \<Rightarrow> Inr s | _ \<Rightarrow> Inl UnmarshalTypeError)\<rparr>"

datatype example_config = Email string | Webhook string string

definition example_encode :: "example_config \<Rightarrow> go_value" where
  "example_encode cfg =
     (case cfg of
        Email address \<Rightarrow> GoMap [(''address'', GoString address)]
      | Webhook name' url' \<Rightarrow> GoMap [(''name'', GoString name'), (''url'', GoString url')])"

definition parse_email :: "body \<Rightarrow> go_error + example_config" where
  "parse_email cfgJSON =
     (case cfgJSON of
        Json (JObject kvs) \<Rightarrow>
          (case map_of (rev kvs) ''address'' of
             Some (JString address) \<Rightarrow> Inr (Email address)
           | _ \<Rightarrow> Inl UnmarshalTypeError)
      | _ \<Rightarrow> Inl UnmarshalTypeError)"

definition parse_webhook :: "body \<Rightarrow> go_error + example_config" where
  "parse_webhook cfgJSON =
     (case cfgJSON of
        Json (JObject kvs) \<Rightarrow>
          (case (map_of (rev kvs) ''name'', map_of (rev kvs) ''url'') of
             (Some (JString name'), Some (JString url')) \<Rightarrow> Inr (Webhook name' url')
           | _ \<Rightarrow> Inl UnmarshalTypeError)
      | _ \<Rightarrow> Inl UnmarshalTypeError)"


definition example_registry :: "example_config registry" where
  "example_registry = [(''EMAIL'', parse_email), (''WEBHOOK'', parse_webhook)]"

definition example_channel :: "example_config AlertChannel" where
  "example_channel =
     \<lparr>ID = 42, Type = ''EMAIL'', Config = Some (Email ''ops@example.com''),
      SendRecovery = Some True, SendFailure = None, SendDegraded = Some False,
      SSLExpiry = None, SSLExpiryThreshold = Some 30\<rparr>"

section \<open>Properties\<close>

subsection \<open>Transport and resource operations\<close>

lemma strings_Contains_char: "strings_Contains s [c] = (c \<in> set s)"
  by (induction s) auto

lemma apiCall_sent:
  "snd (apiCall c e m p d sent) =
     (if dispatched c e m p d then sent @ [new_request c m p d] else sent)"
  by (simp add: apiCall_def dispatched_def Let_def
           split: option.splits http_result.splits sum.splits)

lemma apiCall_completed_sent:
  "apiCall c e m p d sent = ((status, res, err), sent') \<Longrightarrow>
     sent' = (if dispatched c e m p d then sent @ [new_request c m p d] else sent)"
  using apiCall_sent [of c e m p d sent] by simp

lemma Create_sent:
  "snd (Create cd c e check sent) =
     (case Marshal cd check of
        Inl err \<Rightarrow> sent
      | Inr data \<Rightarrow>
          if dispatched c e ''POST'' (withAutoAssignAlertsFlag ''checks'') data
          then sent @ [new_request c ''POST'' (withAutoAssignAlertsFlag ''checks'') data]
          else sent)"
proof (cases "Marshal cd check")
  case (Inl err)
  then show ?thesis by (simp add: Create_def)
next
  case (Inr data)
  obtain status res err sent' where
    call: "apiCall c e ''POST'' (withAutoAssignAlertsFlag ''checks'') data sent =
             ((status, res, err), sent')"
    by (metis prod_cases3 surj_pair)
  from apiCall_completed_sent [OF call] Inr call show ?thesis
    by (simp add: Create_def split: option.splits sum.splits)
qed

lemma message_text:
  "Error_message runes (Errorf ''unexpected response status %d: %q'' [ArgInt status, ArgBody res]) =
     Some (''unexpected response status '' @ fmt_d status @ '': '' @
           strconv_Quote runes (body_text res))"
  by (simp add: Error_message_def verb_def)

lemma quote_bytes_plain: "list_all plain s \<Longrightarrow> quote_bytes runes s = s"
proof (induction s)
  case Nil
  then show ?case by simp
next
  case (Cons c s)
  then have "plain c" by simp
  then have "\<not> high c" and "quote_ascii c = [c]"
    by (auto simp add: plain_def high_def quote_ascii_def)
  with Cons show ?case by simp
qed

lemma strings_Contains_middle: "strings_Contains (xs @ ys @ zs) ys"
proof (induction xs)
  case Nil
  show ?case
  proof (cases "ys @ zs")
    case Nil
    then show ?thesis by simp
  next
    case (Cons c s)
    have "prefix ys (ys @ zs)" by simp
    with Cons show ?thesis by simp
  qed
next
  case (Cons x xs)
  then show ?case by simp
qed

text \<open>The example network answers every call.\<close>

lemma example_call:
  "apiCall example_client (answering status res) m p d sent =
     ((status, res, None), sent @ [new_request example_client m p d])"
  by (simp add: apiCall_def answering_def example_client_def Let_def)

text \<open>
  Claim C7 says that the message of the error contains the raw response body. The verb
  \<^verbatim>\<open>%q\<close> writes the body as a quoted Go string, in which a double quote and a backslash
  get a backslash: when the response body is the JSON string \<^verbatim>\<open>"check"\<close> and the status is
  200, the message is \<^verbatim>\<open>unexpected response status 200: "\"check\""\<close>, which contains the
  status code and does not contain the body.
\<close>

theorem Create_unexpected_status_counterexample:
  "Create example_codec example_client (answering 200 (Json (JString ''check''))) ''check'' [] =
     (Inl (Errorf ''unexpected response status %d: %q''
             [ArgInt 200, ArgBody (Json (JString ''check''))]),
      [new_request example_client ''POST'' ''checks?autoAssignAlerts=false''
         (Json (JString ''check''))]) \<and>
   body_text (Json (JString ''check'')) = [CHR 0x22] @ ''check'' @ [CHR 0x22] \<and>
   Error_message id (Errorf ''unexpected response status %d: %q''
                       [ArgInt 200, ArgBody (Json (JString ''check''))]) =
     Some (''unexpected response status 200: '' @
           [CHR 0x22, CHR 0x5C, CHR 0x22] @ ''check'' @ [CHR 0x5C, CHR 0x22, CHR 0x22]) \<and>
   \<not> strings_Contains
       (''unexpected response status 200: '' @
        [CHR 0x22, CHR 0x5C, CHR 0x22] @ ''check'' @ [CHR 0x5C, CHR 0x22, CHR 0x22])
       (body_text (Json (JString ''check'')))"
proof (intro conjI)
  show "Create example_codec example_client (answering 200 (Json (JString ''check''))) ''check'' [] =
     (Inl (Errorf ''unexpected response status %d: %q''
             [ArgInt 200, ArgBody (Json (JString ''check''))]),
      [new_request example_client ''POST'' ''checks?autoAssignAlerts=false''
         (Json (JString ''check''))])"
    by (simp add: Create_def example_codec_def example_call withAutoAssignAlertsFlag_def)
  show "body_text (Json (JString ''check'')) = [CHR 0x22] @ ''check'' @ [CHR 0x22]"
    by code_simp
  show "Error_message id (Errorf ''unexpected response status %d: %q''
                       [ArgInt 200, ArgBody (Json (JString ''check''))]) =
     Some (''unexpected response status 200: '' @
           [CHR 0x22, CHR 0x5C, CHR 0x22] @ ''check'' @ [CHR 0x5C, CHR 0x22, CHR 0x22])"
    by code_simp
  show "\<not> strings_Contains
       (''unexpected response status 200: '' @
        [CHR 0x22, CHR 0x5C, CHR 0x22] @ ''check'' @ [CHR 0x5C, CHR 0x22, CHR 0x22])
       (body_text (Json (JString ''check'')))"
    by code_simp
qed

text \<open>
  Claim C7, amended. For every completed create call on a Check whose response status is
  not 201 (for example 200), \<^verbatim>\<open>Create\<close> returns no value and the error whose message is
  \<^verbatim>\<open>unexpected response status\<close>, the returned status code in decimal, a colon and the
  response body as a quoted Go string. The message contains the returned status code,
  and it contains the raw response body when the body has only printable ASCII
  characters other than the double quote and the backslash.
\<close>

theorem Create_unexpected_status:
  assumes "Marshal cd check = Inr data"
    and "apiCall c e ''POST'' (withAutoAssignAlertsFlag ''checks'') data sent =
           ((status, res, None), sent')"
    and "status \<noteq> 201"
  shows "\<exists>err message.
           Create cd c e check sent = (Inl err, sent') \<and>
           Error_message runes err = Some message \<and>
           message = ''unexpected response status '' @ fmt_d status @ '': '' @
                     strconv_Quote runes (body_text res) \<and>
           strings_Contains message (fmt_d status) \<and>
           (list_all plain (body_text res) \<longrightarrow> strings_Contains message (body_text res))"
proof -
  let ?err = "Errorf ''unexpected response status %d: %q'' [ArgInt status, ArgBody res]"
  let ?message = "''unexpected response status '' @ fmt_d status @ '': '' @
                  strconv_Quote runes (body_text res)"
  from assms have "Create cd c e check sent = (Inl ?err, sent')"
    by (simp add: Create_def)
  moreover have "Error_message runes ?err = Some ?message"
    by (rule message_text)
  moreover have "strings_Contains ?message (fmt_d status)"
    by (rule strings_Contains_middle)
  moreover have "strings_Contains ?message (body_text res)" if "list_all plain (body_text res)"
  proof -
    from that have "?message =
        (''unexpected response status '' @ fmt_d status @ '': '' @ [CHR 0x22]) @
        body_text res @ [CHR 0x22]"
      by (simp add: strconv_Quote_def quote_bytes_plain)
    then show ?thesis
      by (simp only: strings_Contains_middle)
  qed
  ultimately show ?thesis by blast
qed

theorem Create_unexpected_status_witness:
  "Marshal example_codec ''check'' = Inr (Json (JString ''check'')) \<and>
   apiCall example_client (answering 200 (NotJson ''Bad Request'')) ''POST''
       (withAutoAssignAlertsFlag ''checks'') (Json (JString ''check'')) [] =
     ((200, NotJson ''Bad Request'', None),
      [new_request example_client ''POST'' ''checks?autoAssignAlerts=false''
         (Json (JString ''check''))]) \<and>
   (200 :: int) \<noteq> 201 \<and>
   list_all plain (body_text (NotJson ''Bad Request'')) \<and>
   (\<exists>err.
      Create example_codec example_client (answering 200 (NotJson ''Bad Request'')) ''check'' [] =
        (Inl err,
         [new_request example_client ''POST'' ''checks?autoAssignAlerts=false''
            (Json (JString ''check''))]) \<and>
      Error_message id err =
        Some (''unexpected response status 200: '' @ [CHR 0x22] @ ''Bad Request'' @ [CHR 0x22])) \<and>
   strings_Contains
     (''unexpected response status 200: '' @ [CHR 0x22] @ ''Bad Request'' @ [CHR 0x22]) ''200'' \<and>
   strings_Contains
     (''unexpected response status 200: '' @ [CHR 0x22] @ ''Bad Request'' @ [CHR 0x22])
     ''Bad Request''"
proof -
  have m: "Marshal example_codec ''check'' = Inr (Json (JString ''check''))"
    by (simp add: example_codec_def)
  have call: "apiCall example_client (answering 200 (NotJson ''Bad Request'')) ''POST''
       (withAutoAssignAlertsFlag ''checks'') (Json (JString ''check'')) [] =
     ((200, NotJson ''Bad Request'', None),
      [new_request example_client ''POST'' ''checks?autoAssignAlerts=false''
         (Json (JString ''check''))])"
    by (simp add: example_call withAutoAssignAlertsFlag_def)
  have s: "(200 :: int) \<noteq> 201" by simp
  have p: "list_all plain (body_text (NotJson ''Bad Request''))"
    by code_simp
  have d: "fmt_d 200 = ''200''"
    by code_simp
  have q: "strconv_Quote id ''Bad Request'' = [CHR 0x22] @ ''Bad Request'' @ [CHR 0x22]"
    by code_simp
  have b: "body_text (NotJson ''Bad Request'') = ''Bad Request''"
    by (simp add: body_text_def)
  from Create_unexpected_status [OF m call s, of id] m call s p
  show ?thesis
    by (auto simp add: b q d)
qed

lemma Update_sent:
  "snd (Update cd c e ID' check sent) =
     (case Marshal cd check of
        Inl err \<Rightarrow> sent
      | Inr data \<Rightarrow>
          if dispatched c e ''PUT'' (withAutoAssignAlertsFlag (''checks/'' @ ID')) data
          then sent @ [new_request c ''PUT'' (withAutoAssignAlertsFlag (''checks/'' @ ID')) data]
          else sent)"
proof (cases "Marshal cd check")
  case (Inl err)
  then show ?thesis by (simp add: Update_def)
next
  case (Inr data)
  obtain status res err sent' where
    call: "apiCall c e ''PUT'' (withAutoAssignAlertsFlag (''checks/'' @ ID')) data sent =
             ((status, res, err), sent')"
    by (metis prod_cases3 surj_pair)
  from apiCall_completed_sent [OF call] Inr call show ?thesis
    by (simp add: Update_def split: option.splits sum.splits)
qed

lemma CreateGroup_sent:
  "snd (CreateGroup cd c e grp sent) =
     (case Marshal cd grp of
        Inl err \<Rightarrow> sent
      | Inr data \<Rightarrow>
          if dispatched c e ''POST'' (withAutoAssignAlertsFlag ''check-groups'') data
          then sent @ [new_request c ''POST'' (withAutoAssignAlertsFlag ''check-groups'') data]
          else sent)"
proof (cases "Marshal cd grp")
  case (Inl err)
  then show ?thesis by (simp add: CreateGroup_def)
next
  case (Inr data)
  obtain status res err sent' where
    call: "apiCall c e ''POST'' (withAutoAssignAlertsFlag ''check-groups'') data sent =
             ((status, res, err), sent')"
    by (metis prod_cases3 surj_pair)
  from apiCall_completed_sent [OF call] Inr call show ?thesis
    by (simp add: CreateGroup_def split: option.splits sum.splits)
qed

lemma UpdateGroup_sent:
  "snd (UpdateGroup cd c e gid grp sent) =
     (case Marshal cd grp of
        Inl err \<Rightarrow> sent
      | Inr data \<Rightarrow>
          if dispatched c e ''PUT''
               (withAutoAssignAlertsFlag (''check-groups/'' @ fmt_d (sint gid))) data
          then sent @ [new_request c ''PUT''
                         (withAutoAssignAlertsFlag (''check-groups/'' @ fmt_d (sint gid))) data]
          else sent)"
proof (cases "Marshal cd grp")
  case (Inl err)
  then show ?thesis by (simp add: UpdateGroup_def)
next
  case (Inr data)
  obtain status res err sent' where
    call: "apiCall c e ''PUT'' (withAutoAssignAlertsFlag (''check-groups/'' @ fmt_d (sint gid)))
             data sent = ((status, res, err), sent')"
    by (metis prod_cases3 surj_pair)
  from apiCall_completed_sent [OF call] Inr call show ?thesis
    by (simp add: UpdateGroup_def split: option.splits sum.splits)
qed

text \<open>
  Claim C6. For every path \<open>u\<close>, \<^verbatim>\<open>withAutoAssignAlertsFlag\<close> gives \<open>u\<close> followed by
  \<^verbatim>\<open>?autoAssignAlerts=false\<close> when \<open>u\<close> has no \<^verbatim>\<open>?\<close>, and \<open>u\<close> followed by
  \<^verbatim>\<open>&autoAssignAlerts=false\<close> when it has one. The create and update operations of checks
  and check groups send, when they send a request at all, the request made for the
  flagged path: its URL is the base URL, \<^verbatim>\<open>/v1/\<close>, the path and the flag.
\<close>

theorem withAutoAssignAlertsFlag_on_writes:
  "withAutoAssignAlertsFlag u =
     (if CHR ''?'' \<in> set u then u @ ''&autoAssignAlerts=false''
      else u @ ''?autoAssignAlerts=false'') \<and>
   snd (Create cd c e check sent) =
     (case Marshal cd check of
        Inl err \<Rightarrow> sent
      | Inr data \<Rightarrow>
          if dispatched c e ''POST'' (withAutoAssignAlertsFlag ''checks'') data
          then sent @ [new_request c ''POST'' (withAutoAssignAlertsFlag ''checks'') data]
          else sent) \<and>
   snd (Update cd c e ID' check sent) =
     (case Marshal cd check of
        Inl err \<Rightarrow> sent
      | Inr data \<Rightarrow>
          if dispatched c e ''PUT'' (withAutoAssignAlertsFlag (''checks/'' @ ID')) data
          then sent @ [new_request c ''PUT'' (withAutoAssignAlertsFlag (''checks/'' @ ID')) data]
          else sent) \<and>
   snd (CreateGroup cd' c e grp sent) =
     (case Marshal cd' grp of
        Inl err \<Rightarrow> sent
      | Inr data \<Rightarrow>
          if dispatched c e ''POST'' (withAutoAssignAlertsFlag ''check-groups'') data
          then sent @ [new_request c ''POST'' (withAutoAssignAlertsFlag ''check-groups'') data]
          else sent) \<and>
   snd (UpdateGroup cd' c e gid grp sent) =
     (case Marshal cd' grp of
        Inl err \<Rightarrow> sent
      | Inr data \<Rightarrow>
          if dispatched c e ''PUT''
               (withAutoAssignAlertsFlag (''check-groups/'' @ fmt_d (sint gid))) data
          then sent @ [new_request c ''PUT''
                         (withAutoAssignAlertsFlag (''check-groups/'' @ fmt_d (sint gid))) data]
          else sent) \<and>
   URL (new_request c m (withAutoAssignAlertsFlag u) d) =
     url c @ ''/v1/'' @ u @ (if CHR ''?'' \<in> set u then ''&'' else ''?'') @ ''autoAssignAlerts=false''"
proof -
  have flag: "withAutoAssignAlertsFlag u =
     (if CHR ''?'' \<in> set u then u @ ''&autoAssignAlerts=false''
      else u @ ''?autoAssignAlerts=false'')"
    by (simp add: withAutoAssignAlertsFlag_def strings_Contains_char)
  have "URL (new_request c m (withAutoAssignAlertsFlag u) d) =
     url c @ ''/v1/'' @ u @ (if CHR ''?'' \<in> set u then ''&'' else ''?'') @ ''autoAssignAlerts=false''"
    by (simp add: flag new_request_def)
  with flag show ?thesis
    by (simp only: Create_sent Update_sent CreateGroup_sent UpdateGroup_sent simp_thms)
qed

text \<open>
  Claim C8. For each of the five delete operations (Check, Group, Snippet,
  EnvironmentVariable, AlertChannel), a completed call with status 204 returns a nil
  error, whatever the body is (the empty body included): the operations take no decoder
  and give back no value.
\<close>

theorem delete_204_succeeds:
  "(fst (apiCall c e ''DELETE'' (''checks/'' @ checkID) nil_data sent) = (204, res, None)
      \<longrightarrow> Delete c e checkID sent =
            (None, snd (apiCall c e ''DELETE'' (''checks/'' @ checkID) nil_data sent))) \<and>
   (fst (apiCall c e ''DELETE'' (''check-groups/'' @ fmt_d (sint n)) nil_data sent) =
        (204, res, None)
      \<longrightarrow> DeleteGroup c e n sent =
            (None, snd (apiCall c e ''DELETE'' (''check-groups/'' @ fmt_d (sint n)) nil_data sent))) \<and>
   (fst (apiCall c e ''DELETE'' (''snippets/'' @ fmt_d (sint n)) nil_data sent) =
        (204, res, None)
      \<longrightarrow> DeleteSnippet c e n sent =
            (None, snd (apiCall c e ''DELETE'' (''snippets/'' @ fmt_d (sint n)) nil_data sent))) \<and>
   (fst (apiCall c e ''DELETE'' (''variables/'' @ key) nil_data sent) = (204, res, None)
      \<longrightarrow> DeleteEnvironmentVariable c e key sent =
            (None, snd (apiCall c e ''DELETE'' (''variables/'' @ key) nil_data sent))) \<and>
   (fst (apiCall c e ''DELETE'' (''alert-channels/'' @ fmt_d (sint n)) nil_data sent) =
        (204, res, None)
      \<longrightarrow> DeleteAlertChannel c e n sent =
            (None,
             snd (apiCall c e ''DELETE'' (''alert-channels/'' @ fmt_d (sint n)) nil_data sent)))"
  by (auto simp add: Delete_def DeleteGroup_def DeleteSnippet_def DeleteEnvironmentVariable_def
        DeleteAlertChannel_def split: prod.splits)

theorem delete_204_succeeds_witness:
  "fst (apiCall example_client (answering 204 (NotJson [])) ''DELETE'' ''checks/abc''
          nil_data []) = (204, NotJson [], None) \<and>
   Delete example_client (answering 204 (NotJson [])) ''abc'' [] =
     (None, [new_request example_client ''DELETE'' ''checks/abc'' nil_data]) \<and>
   fst (apiCall example_client (answering 204 (NotJson [])) ''DELETE'' ''check-groups/7''
          nil_data []) = (204, NotJson [], None) \<and>
   DeleteGroup example_client (answering 204 (NotJson [])) 7 [] =
     (None, [new_request example_client ''DELETE'' ''check-groups/7'' nil_data]) \<and>
   fst (apiCall example_client (answering 204 (NotJson [])) ''DELETE'' ''snippets/7''
          nil_data []) = (204, NotJson [], None) \<and>
   DeleteSnippet example_client (answering 204 (NotJson [])) 7 [] =
     (None, [new_request example_client ''DELETE'' ''snippets/7'' nil_data]) \<and>
   fst (apiCall example_client (answering 204 (NotJson [])) ''DELETE'' ''variables/KEY''
          nil_data []) = (204, NotJson [], None) \<and>
   DeleteEnvironmentVariable example_client (answering 204 (NotJson [])) ''KEY'' [] =
     (None, [new_request example_client ''DELETE'' ''variables/KEY'' nil_data]) \<and>
   fst (apiCall example_client (answering 204 (NotJson [])) ''DELETE'' ''alert-channels/7''
          nil_data []) = (204, NotJson [], None) \<and>
   DeleteAlertChannel example_client (answering 204 (NotJson [])) 7 [] =
     (None, [new_request example_client ''DELETE'' ''alert-channels/7'' nil_data])"
proof -
  have seven: "fmt_d 7 = ''7''"
    by (simp add: fmt_d_def digit_char_def)
  from delete_204_succeeds [of example_client "answering 204 (NotJson [])" "''abc''" "[]"
      "NotJson []" 7 "''KEY''"]
  show ?thesis
    by (simp add: example_call seven)
qed

subsection \<open>The query string of \<^verbatim>\<open>GetCheckResults\<close>\<close>

lemma Values_Encode_empty: "Values_Encode [] = []"
  by (simp add: Values_Encode_def)

lemma QueryEscape_hasFailures: "QueryEscape ''hasFailures'' = ''hasFailures''"
  by (simp add: QueryEscape_def escape_byte_def unreserved_def)

lemma QueryEscape_1: "QueryEscape ''1'' = ''1''"
  by (simp add: QueryEscape_def escape_byte_def unreserved_def)

lemma Values_Encode_hasFailures:
  "Values_Encode (Values_Add ''hasFailures'' ''1'' []) = ''hasFailures=1''"
  by (simp add: Values_Encode_def Values_Add_def QueryEscape_hasFailures QueryEscape_1)

lemma GetCheckResults_sent:
  "snd (GetCheckResults tb ta cd c e checkID filters sent) =
     (if dispatched c e ''GET'' (GetCheckResults_uri tb ta checkID filters) nil_data
      then sent @ [new_request c ''GET'' (GetCheckResults_uri tb ta checkID filters) nil_data]
      else sent)"
proof -
  obtain status res err sent' where
    call: "apiCall c e ''GET'' (GetCheckResults_uri tb ta checkID filters) nil_data sent =
             ((status, res, err), sent')"
    by (metis prod_cases3 surj_pair)
  from apiCall_completed_sent [OF call] call show ?thesis
    by (simp add: GetCheckResults_def split: option.splits sum.splits)
qed

text \<open>
  Claim C5. With a filter whose fields all have their zero values, the query string that
  \<^verbatim>\<open>GetCheckResults\<close> appends after \<^verbatim>\<open>?\<close> is empty; with a filter whose only set field is
  \<^verbatim>\<open>HasFailures\<close>, it is \<^verbatim>\<open>hasFailures=1\<close> and nothing else. (The empty string is not one of
  the two check type constants.) The request that \<^verbatim>\<open>GetCheckResults\<close> sends is the one made
  for this URI.
\<close>

theorem GetCheckResults_query:
  assumes "TypeBrowser \<noteq> []" and "TypeAPI \<noteq> []"
  shows "GetCheckResults_uri TypeBrowser TypeAPI checkID (Some CheckResultsFilter_zero) =
           ''check-results/'' @ checkID @ ''?'' @ [] \<and>
         GetCheckResults_uri TypeBrowser TypeAPI checkID
           (Some (CheckResultsFilter_zero\<lparr>HasFailures := True\<rparr>)) =
           ''check-results/'' @ checkID @ ''?'' @ ''hasFailures=1'' \<and>
         snd (GetCheckResults TypeBrowser TypeAPI cd c e checkID filters sent) =
           (if dispatched c e ''GET'' (GetCheckResults_uri TypeBrowser TypeAPI checkID filters)
                 nil_data
            then sent @ [new_request c ''GET''
                           (GetCheckResults_uri TypeBrowser TypeAPI checkID filters) nil_data]
            else sent)"
proof (intro conjI)
  show "GetCheckResults_uri TypeBrowser TypeAPI checkID (Some CheckResultsFilter_zero) =
           ''check-results/'' @ checkID @ ''?'' @ []"
    using assms
    by (simp add: GetCheckResults_uri_def CheckResultsFilter_zero_def Values_Encode_empty Let_def)
  show "GetCheckResults_uri TypeBrowser TypeAPI checkID
           (Some (CheckResultsFilter_zero\<lparr>HasFailures := True\<rparr>)) =
           ''check-results/'' @ checkID @ ''?'' @ ''hasFailures=1''"
    using assms
    by (simp add: GetCheckResults_uri_def CheckResultsFilter_zero_def Values_Encode_hasFailures
          Let_def)
  show "snd (GetCheckResults TypeBrowser TypeAPI cd c e checkID filters sent) =
           (if dispatched c e ''GET'' (GetCheckResults_uri TypeBrowser TypeAPI checkID filters)
                 nil_data
            then sent @ [new_request c ''GET''
                           (GetCheckResults_uri TypeBrowser TypeAPI checkID filters) nil_data]
            else sent)"
    by (rule GetCheckResults_sent)
qed

theorem GetCheckResults_query_witness:
  "''BROWSER'' \<noteq> [] \<and> ''API'' \<noteq> [] \<and>
   GetCheckResults_uri ''BROWSER'' ''API'' ''abc'' (Some CheckResultsFilter_zero) =
     ''check-results/abc?'' \<and>
   GetCheckResults_uri ''BROWSER'' ''API'' ''abc''
     (Some (CheckResultsFilter_zero\<lparr>HasFailures := True\<rparr>)) =
     ''check-results/abc?hasFailures=1'' \<and>
   snd (GetCheckResults ''BROWSER'' ''API'' example_codec example_client
          (answering 200 (Json (JString ''r''))) ''abc''
          (Some (CheckResultsFilter_zero\<lparr>HasFailures := True\<rparr>)) []) =
     [new_request example_client ''GET'' ''check-results/abc?hasFailures=1'' nil_data]"
proof -
  have b: "''BROWSER'' \<noteq> []" and a: "''API'' \<noteq> []"
    by simp_all
  have d: "dispatched example_client (answering 200 (Json (JString ''r''))) ''GET''
             ''check-results/abc?hasFailures=1'' nil_data"
    by (simp add: dispatched_def answering_def example_client_def)
  from GetCheckResults_query [OF b a, of "''abc''" example_codec example_client
      "answering 200 (Json (JString ''r''))"
      "Some (CheckResultsFilter_zero\<lparr>HasFailures := True\<rparr>)" "[]"] d
  show ?thesis
    by simp
qed

subsection \<open>Status codes of the create operations\<close>

text \<open>
  Claim C4. On a completed call, \<^verbatim>\<open>CreateAlertChannel\<close> passes the status check exactly when
  the status code is 200 or 201: then its result is the one of \<^verbatim>\<open>alertChannelFromJSON\<close> on
  the body, and otherwise it is the unexpected-status error. The create operations of
  Check, Group, Snippet and EnvironmentVariable pass the status check exactly when the
  status code is 201, and return the unexpected-status error on any other status, 200
  included.
\<close>

theorem create_status_codes:
  "(fst (apiCall c e ''POST'' ''alert-channels''
           (Json (marshal_value (GoMap (payloadFromAlertChannel enc ac)))) sent) =
      (status, res, None) \<longrightarrow>
    fst (CreateAlertChannel reg enc c e ac sent) =
      (if status = 200 \<or> status = 201 then alertChannelFromJSON reg res
       else Inl (Err (Errorf ''unexpected response status: %d, res: %q, payload: %v''
                        [ArgInt status, ArgBody res,
                         ArgBody (Json (marshal_value (GoMap (payloadFromAlertChannel enc ac))))])))) \<and>
   (Marshal cd1 check = Inr data1 \<longrightarrow>
    fst (apiCall c e ''POST'' (withAutoAssignAlertsFlag ''checks'') data1 sent) =
      (status, res, None) \<longrightarrow>
    fst (Create cd1 c e check sent) =
      (if status = 201
       then (case Decode cd1 res of
               Inl err \<Rightarrow> Inl (Errorf ''decoding error for data %s: %v'' [ArgBody res, ArgError err])
             | Inr result \<Rightarrow> Inr result)
       else Inl (Errorf ''unexpected response status %d: %q'' [ArgInt status, ArgBody res]))) \<and>
   (Marshal cd2 grp = Inr data2 \<longrightarrow>
    fst (apiCall c e ''POST'' (withAutoAssignAlertsFlag ''check-groups'') data2 sent) =
      (status, res, None) \<longrightarrow>
    fst (CreateGroup cd2 c e grp sent) =
      (if status = 201
       then (case Decode cd2 res of
               Inl err \<Rightarrow> Inl (Errorf ''decoding error for data %s: %v'' [ArgBody res, ArgError err])
             | Inr result \<Rightarrow> Inr result)
       else Inl (Errorf ''unexpected response status %d: %q'' [ArgInt status, ArgBody res]))) \<and>
   (Marshal cd3 snippet = Inr data3 \<longrightarrow>
    fst (apiCall c e ''POST'' ''snippets'' data3 sent) = (status, res, None) \<longrightarrow>
    fst (CreateSnippet cd3 c e snippet sent) =
      (if status = 201
       then (case Decode cd3 res of
               Inl err \<Rightarrow> Inl (Errorf ''decoding error for data %s: %v'' [ArgBody res, ArgError err])
             | Inr result \<Rightarrow> Inr result)
       else Inl (Errorf ''unexpected response status: %d, res: %q'' [ArgInt status, ArgBody res]))) \<and>
   (Marshal cd4 envVar = Inr data4 \<longrightarrow>
    fst (apiCall c e ''POST'' ''variables'' data4 sent) = (status, res, None) \<longrightarrow>
    fst (CreateEnvironmentVariable cd4 c e envVar sent) =
      (if status = 201
       then (case Decode cd4 res of
               Inl err \<Rightarrow> Inl (Errorf ''decoding error for data %s: %v'' [ArgBody res, ArgError err])
             | Inr result \<Rightarrow> Inr result)
       else Inl (Errorf ''unexpected response status: %d, res: %q'' [ArgInt status, ArgBody res])))"
proof (intro conjI impI)
  assume "fst (apiCall c e ''POST'' ''alert-channels''
           (Json (marshal_value (GoMap (payloadFromAlertChannel enc ac)))) sent) =
      (status, res, None)"
  then show "fst (CreateAlertChannel reg enc c e ac sent) =
      (if status = 200 \<or> status = 201 then alertChannelFromJSON reg res
       else Inl (Err (Errorf ''unexpected response status: %d, res: %q, payload: %v''
                        [ArgInt status, ArgBody res,
                         ArgBody (Json (marshal_value (GoMap (payloadFromAlertChannel enc ac))))])))"
    by (auto simp add: CreateAlertChannel_def json_Marshal_def Let_def split: prod.splits)
next
  assume "Marshal cd1 check = Inr data1"
    and "fst (apiCall c e ''POST'' (withAutoAssignAlertsFlag ''checks'') data1 sent) =
      (status, res, None)"
  then show "fst (Create cd1 c e check sent) =
      (if status = 201
       then (case Decode cd1 res of
               Inl err \<Rightarrow> Inl (Errorf ''decoding error for data %s: %v'' [ArgBody res, ArgError err])
             | Inr result \<Rightarrow> Inr result)
       else Inl (Errorf ''unexpected response status %d: %q'' [ArgInt status, ArgBody res]))"
    by (auto simp add: Create_def split: prod.splits sum.splits)
next
  assume "Marshal cd2 grp = Inr data2"
    and "fst (apiCall c e ''POST'' (withAutoAssignAlertsFlag ''check-groups'') data2 sent) =
      (status, res, None)"
  then show "fst (CreateGroup cd2 c e grp sent) =
      (if status = 201
       then (case Decode cd2 res of
               Inl err \<Rightarrow> Inl (Errorf ''decoding error for data %s: %v'' [ArgBody res, ArgError err])
             | Inr result \<Rightarrow> Inr result)
       else Inl (Errorf ''unexpected response status %d: %q'' [ArgInt status, ArgBody res]))"
    by (auto simp add: CreateGroup_def split: prod.splits sum.splits)
next
  assume "Marshal cd3 snippet = Inr data3"
    and "fst (apiCall c e ''POST'' ''snippets'' data3 sent) = (status, res, None)"
  then show "fst (CreateSnippet cd3 c e snippet sent) =
      (if status = 201
       then (case Decode cd3 res of
               Inl err \<Rightarrow> Inl (Errorf ''decoding error for data %s: %v'' [ArgBody res, ArgError err])
             | Inr result \<Rightarrow> Inr result)
       else Inl (Errorf ''unexpected response status: %d, res: %q'' [ArgInt status, ArgBody res]))"
    by (auto simp add: CreateSnippet_def split: prod.splits sum.splits)
next
  assume "Marshal cd4 envVar = Inr data4"
    and "fst (apiCall c e ''POST'' ''variables'' data4 sent) = (status, res, None)"
  then show "fst (CreateEnvironmentVariable cd4 c e envVar sent) =
      (if status = 201
       then (case Decode cd4 res of
               Inl err \<Rightarrow> Inl (Errorf ''decoding error for data %s: %v'' [ArgBody res, ArgError err])
             | Inr result \<Rightarrow> Inr result)
       else Inl (Errorf ''unexpected response status: %d, res: %q'' [ArgInt status, ArgBody res]))"
    by (auto simp add: CreateEnvironmentVariable_def split: prod.splits sum.splits)
qed

lemma alertChannelFromJSON_null: "alertChannelFromJSON reg (Json JNull) = Inr AlertChannel_zero"
  by (simp add: alertChannelFromJSON_def json_Decode_map_def and_then_def from_id_def
        from_type_def from_sendRecovery_def from_sendFailure_def from_sendDegraded_def
        from_sslExpiry_def from_sslExpiryThreshold_def from_config_def)

theorem create_status_codes_witness:
  "fst (apiCall example_client (answering 200 (Json JNull)) ''POST'' ''alert-channels''
          (Json (marshal_value (GoMap (payloadFromAlertChannel example_encode example_channel))))
          []) = (200, Json JNull, None) \<and>
   fst (CreateAlertChannel example_registry example_encode example_client
          (answering 200 (Json JNull)) example_channel []) = Inr AlertChannel_zero \<and>
   Marshal example_codec ''x'' = Inr (Json (JString ''x'')) \<and>
   fst (apiCall example_client (answering 200 (Json JNull)) ''POST''
          (withAutoAssignAlertsFlag ''checks'') (Json (JString ''x'')) []) =
     (200, Json JNull, None) \<and>
   fst (Create example_codec example_client (answering 200 (Json JNull)) ''x'' []) =
     Inl (Errorf ''unexpected response status %d: %q'' [ArgInt 200, ArgBody (Json JNull)]) \<and>
   fst (apiCall example_client (answering 200 (Json JNull)) ''POST''
          (withAutoAssignAlertsFlag ''check-groups'') (Json (JString ''x'')) []) =
     (200, Json JNull, None) \<and>
   fst (CreateGroup example_codec example_client (answering 200 (Json JNull)) ''x'' []) =
     Inl (Errorf ''unexpected response status %d: %q'' [ArgInt 200, ArgBody (Json JNull)]) \<and>
   fst (apiCall example_client (answering 200 (Json JNull)) ''POST'' ''snippets''
          (Json (JString ''x'')) []) = (200, Json JNull, None) \<and>
   fst (CreateSnippet example_codec example_client (answering 200 (Json JNull)) ''x'' []) =
     Inl (Errorf ''unexpected response status: %d, res: %q'' [ArgInt 200, ArgBody (Json JNull)]) \<and>
   fst (apiCall example_client (answering 200 (Json JNull)) ''POST'' ''variables''
          (Json (JString ''x'')) []) = (200, Json JNull, None) \<and>
   fst (CreateEnvironmentVariable example_codec example_client (answering 200 (Json JNull))
          ''x'' []) =
     Inl (Errorf ''unexpected response status: %d, res: %q'' [ArgInt 200, ArgBody (Json JNull)])"
proof -
  have m: "Marshal example_codec ''x'' = Inr (Json (JString ''x''))"
    by (simp add: example_codec_def)
  from create_status_codes [of example_client "answering 200 (Json JNull)" example_encode
      example_channel "[]" 200 "Json JNull" example_registry example_codec "''x''"
      "Json (JString ''x'')" example_codec "''x''" "Json (JString ''x'')"
      example_codec "''x''" "Json (JString ''x'')" example_codec "''x''" "Json (JString ''x'')"]
  show ?thesis
    by (simp add: m example_call alertChannelFromJSON_null)
qed

subsection \<open>Decoding alert channels\<close>

lemma and_then_simps [simp]:
  "and_then (Inr a) f = f a"
  "and_then (Inl err) f = Inl err"
  by (simp_all add: and_then_def)

lemma decode_value_not_int:
  "decode_value j = Inr v \<Longrightarrow> v \<noteq> GoInt i \<and> v \<noteq> GoInt64 i"
  by (cases j) (auto split: option.splits sum.splits)

lemma decode_members_values:
  "decode_members kvs = Inr m \<Longrightarrow> map_of m k = Some v \<Longrightarrow> \<exists>j. decode_value j = Inr v"
proof (induction kvs arbitrary: m)
  case Nil
  then show ?case by simp
next
  case (Cons kj kvs)
  obtain k' j where kj: "kj = (k', j)" by (cases kj)
  from Cons.prems(1) kj obtain v' m' where
    v': "decode_value j = Inr v'" and m': "decode_members kvs = Inr m'"
    and m: "m = (if k' \<in> set (map fst m') then m' else (k', v') # m')"
    by (auto split: sum.splits)
  show ?case
  proof (cases "map_of m' k = Some v")
    case True
    with Cons.IH [OF m'] show ?thesis by blast
  next
    case False
    with m Cons.prems(2) have "v = v'"
      by (auto split: if_splits)
    with v' show ?thesis by blast
  qed
qed

lemma json_Decode_map_values:
  assumes "json_Decode_map response = Inr result" and "map_of result k = Some v"
  shows "v \<noteq> GoInt i \<and> v \<noteq> GoInt64 i"
proof -
  from assms have "\<exists>j. decode_value j = Inr v"
    by (auto simp add: json_Decode_map_def dest: decode_members_values
          split: body.splits json.splits)
  then show ?thesis
    using decode_value_not_int by blast
qed

lemma from_id_decoded:
  assumes "\<And>i. r \<noteq> Some (GoInt i)"
  shows "from_id r a = Inr (ID_update (decoded_int64 r) a)"
  using assms
  by (auto simp add: from_id_def decoded_int64_def split: option.splits go_value.splits)

lemma from_type_eq:
  "from_type r a =
     (if absent_or_string r then Inr (Type_update (decoded_string r) a)
      else Inl (Panic ''type''))"
  by (auto simp add: from_type_def absent_or_string_def decoded_string_def
        split: option.splits go_value.splits)

lemma from_sendRecovery_eq:
  "from_sendRecovery r a =
     (if absent_or_bool r then Inr (SendRecovery_update (decoded_bool r) a)
      else Inl (Panic ''sendRecovery''))"
  by (auto simp add: from_sendRecovery_def absent_or_bool_def decoded_bool_def
        split: option.splits go_value.splits)

lemma from_sendFailure_eq:
  "from_sendFailure r a =
     (if absent_or_bool r then Inr (SendFailure_update (decoded_bool r) a)
      else Inl (Panic ''sendFailure''))"
  by (auto simp add: from_sendFailure_def absent_or_bool_def decoded_bool_def
        split: option.splits go_value.splits)

lemma from_sendDegraded_eq:
  "from_sendDegraded r a =
     (if absent_or_bool r then Inr (SendDegraded_update (decoded_bool r) a)
      else Inl (Panic ''sendDegraded''))"
  by (auto simp add: from_sendDegraded_def absent_or_bool_def decoded_bool_def
        split: option.splits go_value.splits)

lemma from_sslExpiry_eq:
  "from_sslExpiry r a =
     (if absent_or_bool r then Inr (SSLExpiry_update (decoded_bool r) a)
      else Inl (Panic ''sslExpiry''))"
  by (auto simp add: from_sslExpiry_def absent_or_bool_def decoded_bool_def
        split: option.splits go_value.splits)

lemma from_sslExpiryThreshold_decoded:
  assumes "\<And>i. r \<noteq> Some (GoInt64 i)"
  shows "from_sslExpiryThreshold r a = Inr (SSLExpiryThreshold_update (decoded_int r) a)"
  using assms
  by (auto simp add: from_sslExpiryThreshold_def decoded_int_def
        split: option.splits go_value.splits)

lemmas from_eqs =
  from_type_eq from_sendRecovery_eq from_sendFailure_eq from_sendDegraded_eq from_sslExpiry_eq

lemma panics_at_first_failed_assertion:
  assumes "json_Decode_map response = Inr result"
    and "\<not> absent_or_string (map_of result ''type'') \<or>
         \<not> absent_or_bool (map_of result ''sendRecovery'') \<or>
         \<not> absent_or_bool (map_of result ''sendFailure'') \<or>
         \<not> absent_or_bool (map_of result ''sendDegraded'') \<or>
         \<not> absent_or_bool (map_of result ''sslExpiry'')"
  shows "\<exists>k. alertChannelFromJSON reg response = Inl (Panic k)"
proof -
  have id: "\<And>i. map_of result ''id'' \<noteq> Some (GoInt i)"
    using json_Decode_map_values [OF assms(1)] by blast
  show ?thesis
    using assms(2)
    by (auto simp add: alertChannelFromJSON_def assms(1) from_id_decoded [OF id] from_eqs)
qed

lemma alertChannelFromJSON_success:
  assumes "json_Decode_map response = Inr result"
    and "absent_or_string (map_of result ''type'')"
    and "absent_or_bool (map_of result ''sendRecovery'')"
    and "absent_or_bool (map_of result ''sendFailure'')"
    and "absent_or_bool (map_of result ''sendDegraded'')"
    and "absent_or_bool (map_of result ''sslExpiry'')"
  shows "alertChannelFromJSON reg response =
           from_config reg (map_of result ''config'')
             \<lparr>ID = decoded_int64 (map_of result ''id'') 0,
              Type = decoded_string (map_of result ''type'') [],
              Config = None,
              SendRecovery = decoded_bool (map_of result ''sendRecovery'') None,
              SendFailure = decoded_bool (map_of result ''sendFailure'') None,
              SendDegraded = decoded_bool (map_of result ''sendDegraded'') None,
              SSLExpiry = decoded_bool (map_of result ''sslExpiry'') None,
              SSLExpiryThreshold = decoded_int (map_of result ''sslExpiryThreshold'') None\<rparr>"
proof -
  have id: "\<And>i. map_of result ''id'' \<noteq> Some (GoInt i)"
    and th: "\<And>i. map_of result ''sslExpiryThreshold'' \<noteq> Some (GoInt64 i)"
    using json_Decode_map_values [OF assms(1)] by blast+
  show ?thesis
    using assms(2-)
    by (simp add: alertChannelFromJSON_def assms(1) from_id_decoded [OF id] from_eqs
          from_sslExpiryThreshold_decoded [OF th])
qed

text \<open>
  Claim C9. \<^verbatim>\<open>alertChannelFromJSON\<close> reads \<^verbatim>\<open>type\<close> and the four optional booleans with
  unchecked type assertions: for every decoded payload in which \<^verbatim>\<open>type\<close> is present and not
  a string, or one of \<^verbatim>\<open>sendRecovery\<close>, \<^verbatim>\<open>sendFailure\<close>, \<^verbatim>\<open>sendDegraded\<close>, \<^verbatim>\<open>sslExpiry\<close> is
  present and not a boolean, the decoder panics and returns no error value. The payloads
  \<^verbatim>\<open>{"type": true}\<close> and \<^verbatim>\<open>{"sendRecovery": null}\<close> are such payloads.
\<close>

theorem alertChannelFromJSON_panics:
  assumes "json_Decode_map response = Inr result"
    and "\<not> absent_or_string (map_of result ''type'') \<or>
         \<not> absent_or_bool (map_of result ''sendRecovery'') \<or>
         \<not> absent_or_bool (map_of result ''sendFailure'') \<or>
         \<not> absent_or_bool (map_of result ''sendDegraded'') \<or>
         \<not> absent_or_bool (map_of result ''sslExpiry'')"
  shows "\<exists>k. alertChannelFromJSON reg response = Inl (Panic k)"
  using assms by (rule panics_at_first_failed_assertion)

theorem alertChannelFromJSON_panics_witness:
  "json_Decode_map (Json (JObject [(''type'', JBool True)])) = Inr [(''type'', GoBool True)] \<and>
   \<not> absent_or_string (map_of [(''type'', GoBool True)] ''type'') \<and>
   (\<exists>k. alertChannelFromJSON example_registry (Json (JObject [(''type'', JBool True)])) =
          Inl (Panic k)) \<and>
   json_Decode_map (Json (JObject [(''sendRecovery'', JNull)])) = Inr [(''sendRecovery'', GoNil)] \<and>
   \<not> absent_or_bool (map_of [(''sendRecovery'', GoNil)] ''sendRecovery'') \<and>
   (\<exists>k. alertChannelFromJSON example_registry (Json (JObject [(''sendRecovery'', JNull)])) =
          Inl (Panic k))"
proof -
  have d1: "json_Decode_map (Json (JObject [(''type'', JBool True)])) =
              Inr [(''type'', GoBool True)]"
    by (simp add: json_Decode_map_def)
  have b1: "\<not> absent_or_string (map_of [(''type'', GoBool True)] ''type'')"
    by (simp add: absent_or_string_def)
  have d2: "json_Decode_map (Json (JObject [(''sendRecovery'', JNull)])) =
              Inr [(''sendRecovery'', GoNil)]"
    by (simp add: json_Decode_map_def)
  have b2: "\<not> absent_or_bool (map_of [(''sendRecovery'', GoNil)] ''sendRecovery'')"
    by (simp add: absent_or_bool_def)
  from alertChannelFromJSON_panics [OF d1, of example_registry]
    alertChannelFromJSON_panics [OF d2, of example_registry] d1 b1 d2 b2
  show ?thesis
    by blast
qed

text \<open>
  Claim C10 says that every decoded payload without a \<^verbatim>\<open>config\<close> key is decoded with
  success into an alert channel whose configuration is not set. The payload
  \<^verbatim>\<open>{"type": true}\<close> has no \<^verbatim>\<open>config\<close> key, and the decoder panics at the type assertion
  \<^verbatim>\<open>v.(string)\<close> on its type.
\<close>

theorem alertChannelFromJSON_without_config_counterexample:
  "json_Decode_map (Json (JObject [(''type'', JBool True)])) = Inr [(''type'', GoBool True)] \<and>
   map_of [(''type'', GoBool True)] ''config'' = None \<and>
   alertChannelFromJSON example_registry (Json (JObject [(''type'', JBool True)])) =
     Inl (Panic ''type'')"
  by (simp add: json_Decode_map_def alertChannelFromJSON_def from_id_def from_type_def)

text \<open>
  Claim C10, amended. When the decoded payload has no \<^verbatim>\<open>config\<close> key and the values of
  \<^verbatim>\<open>type\<close>, \<^verbatim>\<open>sendRecovery\<close>, \<^verbatim>\<open>sendFailure\<close>, \<^verbatim>\<open>sendDegraded\<close> and \<^verbatim>\<open>sslExpiry\<close>, where present,
  have the asserted types (a string, booleans), \<^verbatim>\<open>alertChannelFromJSON\<close> returns success
  with an alert channel whose configuration is not set, whatever the registry is: the
  registry is consulted only in the block of the \<^verbatim>\<open>config\<close> key, so a type without parser
  does not make the decoding fail. When one of these values has another type, the
  decoder panics at the first failed assertion; it never returns an error.
\<close>

theorem alertChannelFromJSON_without_config:
  assumes "json_Decode_map response = Inr result"
    and "map_of result ''config'' = None"
  shows "(absent_or_string (map_of result ''type'') \<and>
          absent_or_bool (map_of result ''sendRecovery'') \<and>
          absent_or_bool (map_of result ''sendFailure'') \<and>
          absent_or_bool (map_of result ''sendDegraded'') \<and>
          absent_or_bool (map_of result ''sslExpiry'') \<and>
          (\<exists>ac. alertChannelFromJSON reg response = Inr ac \<and> Config ac = None \<and>
                Type ac = decoded_string (map_of result ''type'') [])) \<or>
         (\<not> (absent_or_string (map_of result ''type'') \<and>
             absent_or_bool (map_of result ''sendRecovery'') \<and>
             absent_or_bool (map_of result ''sendFailure'') \<and>
             absent_or_bool (map_of result ''sendDegraded'') \<and>
             absent_or_bool (map_of result ''sslExpiry'')) \<and>
          (\<exists>k. alertChannelFromJSON reg response = Inl (Panic k)))"
proof (cases "absent_or_string (map_of result ''type'') \<and>
          absent_or_bool (map_of result ''sendRecovery'') \<and>
          absent_or_bool (map_of result ''sendFailure'') \<and>
          absent_or_bool (map_of result ''sendDegraded'') \<and>
          absent_or_bool (map_of result ''sslExpiry'')")
  case True
  then have "\<exists>ac. alertChannelFromJSON reg response = Inr ac \<and> Config ac = None \<and>
                Type ac = decoded_string (map_of result ''type'') []"
    by (simp add: alertChannelFromJSON_success [OF assms(1)] assms(2) from_config_def)
  with True show ?thesis by blast
next
  case False
  then have "\<exists>k. alertChannelFromJSON reg response = Inl (Panic k)"
    by (intro panics_at_first_failed_assertion [OF assms(1)]) blast
  with False show ?thesis by blast
qed

theorem alertChannelFromJSON_without_config_witness:
  "json_Decode_map (Json (JObject [(''type'', JString ''bogus''), (''sendFailure'', JBool True)])) =
     Inr [(''type'', GoString ''bogus''), (''sendFailure'', GoBool True)] \<and>
   map_of [(''type'', GoString ''bogus''), (''sendFailure'', GoBool True)] ''config'' = None \<and>
   map_of example_registry ''bogus'' = None \<and>
   alertChannelFromJSON example_registry
     (Json (JObject [(''type'', JString ''bogus''), (''sendFailure'', JBool True)])) =
     Inr (AlertChannel_zero\<lparr>Type := ''bogus'', SendFailure := Some True\<rparr>)"
proof -
  let ?result = "[(''type'', GoString ''bogus''), (''sendFailure'', GoBool True)]"
  have d: "json_Decode_map
             (Json (JObject [(''type'', JString ''bogus''), (''sendFailure'', JBool True)])) =
           Inr ?result"
    by (simp add: json_Decode_map_def)
  have c: "map_of ?result ''config'' = None"
    and t: "absent_or_string (map_of ?result ''type'')"
    and b: "absent_or_bool (map_of ?result ''sendRecovery'')"
      "absent_or_bool (map_of ?result ''sendFailure'')"
      "absent_or_bool (map_of ?result ''sendDegraded'')"
      "absent_or_bool (map_of ?result ''sslExpiry'')"
    by (simp_all add: absent_or_string_def absent_or_bool_def)
  have r: "map_of example_registry ''bogus'' = None"
    by (simp add: example_registry_def)
  have e: "alertChannelFromJSON example_registry
     (Json (JObject [(''type'', JString ''bogus''), (''sendFailure'', JBool True)])) =
     Inr (AlertChannel_zero\<lparr>Type := ''bogus'', SendFailure := Some True\<rparr>)"
    by (simp add: alertChannelFromJSON_def d from_id_def from_type_def from_sendRecovery_def
          from_sendFailure_def from_sendDegraded_def from_sslExpiry_def
          from_sslExpiryThreshold_def from_config_def)
  from alertChannelFromJSON_without_config [OF d c, of example_registry] d c r e t b
  show ?thesis
    by simp
qed

text \<open>
  Claim C2 says that a payload whose type has no parser in the registry is never decoded
  into an alert channel. The payload \<^verbatim>\<open>{"type": "bogus"}\<close>, for a registry without parser
  for \<^verbatim>\<open>bogus\<close>, is decoded into an alert channel with no configuration.
\<close>

theorem alertChannelFromJSON_unsupported_counterexample:
  "map_of example_registry ''bogus'' = None \<and>
   alertChannelFromJSON example_registry (Json (JObject [(''type'', JString ''bogus'')])) =
     Inr \<lparr>ID = 0, Type = ''bogus'', Config = None, SendRecovery = None, SendFailure = None,
          SendDegraded = None, SSLExpiry = None, SSLExpiryThreshold = None\<rparr>"
  by (simp add: example_registry_def alertChannelFromJSON_def json_Decode_map_def from_id_def
        from_type_def from_sendRecovery_def from_sendFailure_def from_sendDegraded_def
        from_sslExpiry_def from_sslExpiryThreshold_def from_config_def)

text \<open>
  Claim C2, amended. For every decoded payload that has a \<^verbatim>\<open>config\<close> key and whose \<^verbatim>\<open>type\<close>
  is a string without parser in the registry, \<^verbatim>\<open>alertChannelFromJSON\<close> returns no alert
  channel: it returns the error of the registry when the values of \<^verbatim>\<open>sendRecovery\<close>,
  \<^verbatim>\<open>sendFailure\<close>, \<^verbatim>\<open>sendDegraded\<close> and \<^verbatim>\<open>sslExpiry\<close>, where present, are booleans, and it
  panics at the first failed type assertion otherwise.
\<close>

theorem alertChannelFromJSON_unsupported_type:
  assumes "json_Decode_map response = Inr result"
    and "map_of result ''config'' = Some cfg"
    and "map_of result ''type'' = Some (GoString T)"
    and "map_of reg T = None"
  shows "(absent_or_bool (map_of result ''sendRecovery'') \<and>
          absent_or_bool (map_of result ''sendFailure'') \<and>
          absent_or_bool (map_of result ''sendDegraded'') \<and>
          absent_or_bool (map_of result ''sslExpiry'') \<and>
          alertChannelFromJSON reg response = Inl (Err (UnsupportedType T))) \<or>
         (\<not> (absent_or_bool (map_of result ''sendRecovery'') \<and>
             absent_or_bool (map_of result ''sendFailure'') \<and>
             absent_or_bool (map_of result ''sendDegraded'') \<and>
             absent_or_bool (map_of result ''sslExpiry'')) \<and>
          (\<exists>k. alertChannelFromJSON reg response = Inl (Panic k)))"
proof (cases "absent_or_bool (map_of result ''sendRecovery'') \<and>
          absent_or_bool (map_of result ''sendFailure'') \<and>
          absent_or_bool (map_of result ''sendDegraded'') \<and>
          absent_or_bool (map_of result ''sslExpiry'')")
  case True
  have t: "absent_or_string (map_of result ''type'')"
    by (simp add: assms(3) absent_or_string_def)
  from True have "alertChannelFromJSON reg response = Inl (Err (UnsupportedType T))"
    by (simp add: alertChannelFromJSON_success [OF assms(1) t] assms(2-) from_config_def
          json_Marshal_def AlertChannelConfigFromJSON_def decoded_string_def)
  with True show ?thesis by blast
next
  case False
  then have "\<exists>k. alertChannelFromJSON reg response = Inl (Panic k)"
    by (intro panics_at_first_failed_assertion [OF assms(1)]) blast
  with False show ?thesis by blast
qed

theorem alertChannelFromJSON_unsupported_type_witness:
  "json_Decode_map (Json (JObject [(''type'', JString ''bogus''), (''config'', JNull)])) =
     Inr [(''type'', GoString ''bogus''), (''config'', GoNil)] \<and>
   map_of [(''type'', GoString ''bogus''), (''config'', GoNil)] ''config'' = Some GoNil \<and>
   map_of [(''type'', GoString ''bogus''), (''config'', GoNil)] ''type'' =
     Some (GoString ''bogus'') \<and>
   map_of example_registry ''bogus'' = None \<and>
   alertChannelFromJSON example_registry
     (Json (JObject [(''type'', JString ''bogus''), (''config'', JNull)])) =
     Inl (Err (UnsupportedType ''bogus''))"
proof -
  let ?result = "[(''type'', GoString ''bogus''), (''config'', GoNil)]"
  have d: "json_Decode_map (Json (JObject [(''type'', JString ''bogus''), (''config'', JNull)])) =
           Inr ?result"
    by (simp add: json_Decode_map_def)
  have c: "map_of ?result ''config'' = Some GoNil"
    and t: "map_of ?result ''type'' = Some (GoString ''bogus'')"
    by simp_all
  have r: "map_of example_registry ''bogus'' = None"
    by (simp add: example_registry_def)
  from alertChannelFromJSON_unsupported_type [OF d c t r] d c t r
  show ?thesis
    by (simp add: absent_or_bool_def)
qed

subsection \<open>Numbers: \<^verbatim>\<open>float64\<close> and back\<close>

lemma round_half_even_of_int [simp]: "round_half_even (of_int n) = n"
  by (simp add: round_half_even_def)

lemma bitlen_one: "bitlen 1 = 1"
  by (simp add: bitlen_alt_def)

lemma bitlen_pos: "0 < x \<Longrightarrow> 1 \<le> bitlen x"
  by (auto simp: bitlen_alt_def)

lemma powi_bitlen_le:
  assumes "0 < x"
  shows "(2::rat) powi (bitlen x - 1) \<le> of_int x"
proof -
  from bitlen_bounds [OF assms] have lower: "2 ^ nat (bitlen x - 1) \<le> x" ..
  from bitlen_pos [OF assms] have "(2::rat) powi (bitlen x - 1) = 2 ^ nat (bitlen x - 1)"
    by (simp add: power_int_def)
  also have "\<dots> = of_int (2 ^ nat (bitlen x - 1))" by simp
  also have "\<dots> \<le> of_int x" using lower by (simp only: of_int_le_iff)
  finally show ?thesis .
qed

lemma quotient_of_abs_int: "quotient_of \<bar>of_int v :: rat\<bar> = (\<bar>v\<bar>, 1)"
proof -
  have "quotient_of (of_int \<bar>v\<bar> :: rat) = (\<bar>v\<bar>, 1)"
    by (rule quotient_of_rat_of_int)
  then show ?thesis
    by (simp only: of_int_abs)
qed

lemma binade_of_int:
  assumes "v \<noteq> 0"
  shows "binade (of_int v) = bitlen \<bar>v\<bar> - 1"
proof -
  from assms have "0 < \<bar>v\<bar>" by simp
  from powi_bitlen_le [OF this] have "(2::rat) powi (bitlen \<bar>v\<bar> - 1) \<le> \<bar>of_int v\<bar>"
    by simp
  then show ?thesis
    by (simp add: binade_def quotient_of_abs_int bitlen_one)
qed

lemma bitlen_le:
  assumes "0 < x" and "x \<le> 2 ^ n"
  shows "bitlen x - 1 \<le> int n"
proof -
  from bitlen_bounds [OF assms(1)] have "2 ^ nat (bitlen x - 1) \<le> x" ..
  with assms(2) have "(2::int) ^ nat (bitlen x - 1) \<le> 2 ^ n" by linarith
  then have "nat (bitlen x - 1) \<le> n" by simp
  then show ?thesis by linarith
qed

lemma ParseFloat_int_exact:
  assumes "\<bar>v\<bar> \<le> 2 ^ 53"
  shows "ParseFloat (of_int v) = Some (of_int v)"
proof (cases "v = 0")
  case True
  then show ?thesis by (simp add: ParseFloat_def)
next
  case False
  then have pos: "0 < \<bar>v\<bar>" by simp
  define k where "k = bitlen \<bar>v\<bar> - 1"
  have bin: "binade (of_int v) = k"
    using False by (simp add: binade_of_int k_def)
  have k53: "k \<le> 53"
    using bitlen_le [OF pos assms] by (simp add: k_def)
  from pos have "1 \<le> bitlen \<bar>v\<bar>" by (auto simp: bitlen_alt_def)
  then have k0: "0 \<le> k" by (simp add: k_def)
  define s where "s = max k (- 1022) - 52"
  have s: "s = k - 52" using k0 by (simp add: s_def)
  have small: "\<bar>of_int v :: rat\<bar> < 2 powi 1024"
  proof -
    have "\<bar>of_int v :: rat\<bar> = of_int \<bar>v\<bar>" by simp
    also have "\<dots> \<le> of_int (2 ^ 53)" using assms by (simp only: of_int_le_iff)
    also have "\<dots> < (2::rat) powi 1024" by (simp add: power_int_def)
    finally show ?thesis .
  qed
  have "\<exists>n. (of_int v :: rat) / 2 powi s = of_int n"
  proof (cases "s \<le> 0")
    case True
    then have "(of_int v :: rat) / 2 powi s = of_int (v * 2 ^ nat (- s))"
      by (simp add: power_int_def field_simps)
    then show ?thesis by blast
  next
    case False
    with s k53 have s1: "s = 1" and "k = 53" by simp_all
    with bitlen_bounds [OF pos] have "2 ^ 53 \<le> \<bar>v\<bar>" by (simp add: k_def)
    with assms have "\<bar>v\<bar> = 2 ^ 53" by simp
    then have "v = 2 ^ 53 \<or> v = - (2 ^ 53)" by linarith
    then have "(of_int v :: rat) / 2 powi s = of_int (v div 2)"
      using s1 by auto
    then show ?thesis by blast
  qed
  then obtain n where n: "(of_int v :: rat) / 2 powi s = of_int n" ..
  have "(2::rat) powi s \<noteq> 0" by simp
  with n have scaled: "of_int n * 2 powi s = (of_int v :: rat)"
    by (metis nonzero_divide_eq_eq)
  show ?thesis
    using False small
    by (simp add: ParseFloat_def Let_def bin s_def [symmetric] n scaled)
qed



lemma trunc_of_int [simp]: "trunc (of_int v) = v"
  by (simp add: trunc_def)

lemma int64_of_float64_of_int:
  assumes "- (2 ^ 63) \<le> v" and "v < 2 ^ 63"
  shows "int64_of_float64 (of_int v) = word_of_int v"
  using assms by (simp add: int64_of_float64_def)


lemma literal_value_int [simp]: "literal_value v 0 = of_int v"
  by (simp add: literal_value_def)

lemma literal_value_point_zero [simp]: "literal_value (v * 10) (- 1) = of_int v"
  by (simp add: literal_value_def power_int_def)

lemma decode_value_integer:
  assumes "\<bar>v\<bar> \<le> 2 ^ 53"
  shows "decode_value (JNumber v 0) = Inr (GoFloat64 (of_int v))"
    and "decode_value (JNumber (v * 10) (- 1)) = Inr (GoFloat64 (of_int v))"
  using ParseFloat_int_exact [OF assms] by simp_all


lemma decode_members_all:
  "decode_members kvs = Inr m \<Longrightarrow> (k, j) \<in> set kvs \<Longrightarrow> \<exists>v. decode_value j = Inr v"
proof (induction kvs arbitrary: m)
  case Nil
  then show ?case by simp
next
  case (Cons kj kvs)
  obtain k' j' where kj: "kj = (k', j')" by (cases kj)
  from Cons.prems(1) kj obtain v' m' where
    v': "decode_value j' = Inr v'" and m': "decode_members kvs = Inr m'"
    by (auto split: sum.splits)
  from Cons.prems(2) kj have "(k, j) = (k', j') \<or> (k, j) \<in> set kvs" by auto
  then show ?case
    using v' Cons.IH [OF m'] by auto
qed

lemma decode_members_lookup:
  "decode_members kvs = Inr m \<Longrightarrow>
     map_of m k =
       (case json_member kvs k of
          None \<Rightarrow> None
        | Some j \<Rightarrow> (case decode_value j of Inl err \<Rightarrow> None | Inr v \<Rightarrow> Some v))"
proof (induction kvs arbitrary: m k)
  case Nil
  then show ?case by (simp add: json_member_def)
next
  case (Cons kj kvs)
  obtain k' j' where kj: "kj = (k', j')" by (cases kj)
  from Cons.prems kj obtain v' m' where
    v': "decode_value j' = Inr v'" and m': "decode_members kvs = Inr m'"
    and m: "m = (if k' \<in> set (map fst m') then m' else (k', v') # m')"
    by (auto split: sum.splits)
  note IH = Cons.IH [OF m']
  have later: "json_member (kj # kvs) k =
      (case json_member kvs k of None \<Rightarrow> (if k = k' then Some j' else None) | Some j \<Rightarrow> Some j)"
    by (auto simp add: json_member_def kj map_add_def split: option.splits)
  have known: "k' \<in> set (map fst m') \<longleftrightarrow> json_member kvs k' \<noteq> None"
  proof
    assume "k' \<in> set (map fst m')"
    then have "map_of m' k' \<noteq> None"
      by (simp add: map_of_eq_None_iff)
    with IH [of k'] show "json_member kvs k' \<noteq> None"
      by (auto split: option.splits)
  next
    assume "json_member kvs k' \<noteq> None"
    then obtain j where j: "json_member kvs k' = Some j" by auto
    then have "(k', j) \<in> set kvs"
      by (auto simp add: json_member_def dest: map_of_SomeD)
    from decode_members_all [OF m' this] obtain v where "decode_value j = Inr v" ..
    with IH [of k'] j have "map_of m' k' = Some v" by simp
    then show "k' \<in> set (map fst m')"
      by (metis map_of_eq_None_iff option.distinct(1) set_map)
  qed
  show ?case
  proof (cases "json_member kvs k")
    case (Some j)
    with IH [of k] later known m show ?thesis
      by (auto split: sum.splits option.splits if_splits)
  next
    case None
    with IH [of k] have none: "map_of m' k = None" by simp
    show ?thesis
    proof (cases "k = k'")
      case True
      with None none later known m v' show ?thesis
        by (auto simp add: map_of_eq_None_iff)
    next
      case False
      with None none later m show ?thesis by simp
    qed
  qed
qed

lemma json_Decode_map_lookup:
  assumes "json_Decode_map (Json (JObject kvs)) = Inr result"
    and "json_member kvs k = Some j"
    and "decode_value j = Inr v"
  shows "map_of result k = Some v"
  using assms decode_members_lookup [of kvs result k]
  by (simp add: json_Decode_map_def)




subsection \<open>Integer and floating-point literals\<close>

lemma from_config_frame:
  assumes "from_config reg r a = Inr a'"
  shows "ID a' = ID a \<and> Type a' = Type a \<and> SendRecovery a' = SendRecovery a \<and>
         SendFailure a' = SendFailure a \<and> SendDegraded a' = SendDegraded a \<and>
         SSLExpiry a' = SSLExpiry a \<and> SSLExpiryThreshold a' = SSLExpiryThreshold a"
  using assms
  by (auto simp add: from_config_def SetConfig_def split: option.splits sum.splits)

lemma alertChannelFromJSON_InrD:
  assumes "alertChannelFromJSON reg response = Inr ac"
  shows "\<exists>result. json_Decode_map response = Inr result \<and>
           ID ac = decoded_int64 (map_of result ''id'') 0 \<and>
           SSLExpiryThreshold ac = decoded_int (map_of result ''sslExpiryThreshold'') None"
proof (cases "json_Decode_map response")
  case (Inl err)
  with assms show ?thesis by (simp add: alertChannelFromJSON_def)
next
  case (Inr result)
  have ok: "absent_or_string (map_of result ''type'')"
    "absent_or_bool (map_of result ''sendRecovery'')"
    "absent_or_bool (map_of result ''sendFailure'')"
    "absent_or_bool (map_of result ''sendDegraded'')"
    "absent_or_bool (map_of result ''sslExpiry'')"
    using panics_at_first_failed_assertion [OF Inr, of reg] assms by auto
  from alertChannelFromJSON_success [OF Inr ok, of reg] assms
  have "from_config reg (map_of result ''config'')
          \<lparr>ID = decoded_int64 (map_of result ''id'') 0,
           Type = decoded_string (map_of result ''type'') [],
           Config = None,
           SendRecovery = decoded_bool (map_of result ''sendRecovery'') None,
           SendFailure = decoded_bool (map_of result ''sendFailure'') None,
           SendDegraded = decoded_bool (map_of result ''sendDegraded'') None,
           SSLExpiry = decoded_bool (map_of result ''sslExpiry'') None,
           SSLExpiryThreshold = decoded_int (map_of result ''sslExpiryThreshold'') None\<rparr> =
        Inr ac"
    by simp
  from from_config_frame [OF this]
  have "ID ac = decoded_int64 (map_of result ''id'') 0 \<and>
        SSLExpiryThreshold ac = decoded_int (map_of result ''sslExpiryThreshold'') None"
    by simp
  with Inr show ?thesis by blast
qed

lemma int64_range:
  fixes v :: int
  assumes "\<bar>v\<bar> \<le> 2 ^ 53"
  shows "- (2 ^ 63) \<le> v" and "v < 2 ^ 63"
proof -
  have "(2::int) ^ 53 \<le> 2 ^ 63 - 1" by simp
  with assms show "- (2 ^ 63) \<le> v" and "v < 2 ^ 63" by linarith+
qed

lemma int64_of_float64_bounded:
  assumes "\<bar>v\<bar> \<le> 2 ^ 53"
  shows "int64_of_float64 (of_int v) = word_of_int v"
  using int64_range [OF assms] by (rule int64_of_float64_of_int)

text \<open>
  Claim C3. For every integer \<open>v\<close> of magnitude at most \<open>2\<^sup>5\<^sup>3\<close>, a payload decoded into an
  alert channel gives the same \<^verbatim>\<open>ID\<close>, the 64-bit integer \<open>v\<close>, whether the member \<^verbatim>\<open>id\<close> that
  the decoder keeps is the integer literal \<open>v\<close> or the literal \<open>v.0\<close>; likewise for
  \<^verbatim>\<open>sslExpiryThreshold\<close>.
\<close>

theorem integer_and_float_literals_agree:
  assumes "\<bar>v\<bar> \<le> 2 ^ 53"
    and "alertChannelFromJSON reg (Json (JObject kvs)) = Inr ac"
  shows "(json_member kvs ''id'' = Some (JNumber v 0) \<or>
          json_member kvs ''id'' = Some (JNumber (v * 10) (- 1))
            \<longrightarrow> ID ac = word_of_int v) \<and>
         (json_member kvs ''sslExpiryThreshold'' = Some (JNumber v 0) \<or>
          json_member kvs ''sslExpiryThreshold'' = Some (JNumber (v * 10) (- 1))
            \<longrightarrow> SSLExpiryThreshold ac = Some (word_of_int v)) \<and>
         sint (word_of_int v :: 64 word) = v"
proof -
  from alertChannelFromJSON_InrD [OF assms(2)] obtain result where
    d: "json_Decode_map (Json (JObject kvs)) = Inr result"
    and i: "ID ac = decoded_int64 (map_of result ''id'') 0"
    and t: "SSLExpiryThreshold ac = decoded_int (map_of result ''sslExpiryThreshold'') None"
    by blast
  note num = decode_value_integer [OF assms(1)]
  note conv = int64_of_float64_bounded [OF assms(1)]
  have "ID ac = word_of_int v"
    if "json_member kvs ''id'' = Some (JNumber v 0) \<or>
        json_member kvs ''id'' = Some (JNumber (v * 10) (- 1))"
  proof -
    from that num json_Decode_map_lookup [OF d]
    have "map_of result ''id'' = Some (GoFloat64 (of_int v))" by blast
    with i conv show ?thesis by (simp add: decoded_int64_def)
  qed
  moreover have "SSLExpiryThreshold ac = Some (word_of_int v)"
    if "json_member kvs ''sslExpiryThreshold'' = Some (JNumber v 0) \<or>
        json_member kvs ''sslExpiryThreshold'' = Some (JNumber (v * 10) (- 1))"
  proof -
    from that num json_Decode_map_lookup [OF d]
    have "map_of result ''sslExpiryThreshold'' = Some (GoFloat64 (of_int v))" by blast
    with t conv show ?thesis by (simp add: decoded_int_def)
  qed
  moreover have "sint (word_of_int v :: 64 word) = v"
  proof -
    from int64_range [OF assms(1)] show ?thesis
      by (simp add: sint_sbintrunc' signed_take_bit_int_eq_self)
  qed
  ultimately show ?thesis by blast
qed

lemma decode_42:
  "decode_value (JNumber 42 0) = Inr (GoFloat64 42)"
  "decode_value (JNumber 420 (- 1)) = Inr (GoFloat64 42)"
  using decode_value_integer [of 42] by simp_all

lemma int64_of_float64_42: "int64_of_float64 42 = 42"
  using int64_of_float64_of_int [of 42] by simp

theorem integer_and_float_literals_agree_witness:
  "\<bar>42 :: int\<bar> \<le> 2 ^ 53 \<and>
   alertChannelFromJSON example_registry
     (Json (JObject [(''id'', JNumber 42 0), (''sslExpiryThreshold'', JNumber (42 * 10) (- 1))])) =
     Inr (AlertChannel_zero\<lparr>ID := 42, SSLExpiryThreshold := Some 42\<rparr>) \<and>
   alertChannelFromJSON example_registry
     (Json (JObject [(''id'', JNumber (42 * 10) (- 1)), (''sslExpiryThreshold'', JNumber 42 0)])) =
     Inr (AlertChannel_zero\<lparr>ID := 42, SSLExpiryThreshold := Some 42\<rparr>) \<and>
   sint (42 :: 64 word) = 42"
proof -
  let ?p = "[(''id'', JNumber 42 0), (''sslExpiryThreshold'', JNumber (42 * 10) (- 1))]"
  let ?q = "[(''id'', JNumber (42 * 10) (- 1)), (''sslExpiryThreshold'', JNumber 42 0)]"
  let ?ac = "AlertChannel_zero\<lparr>ID := 42, SSLExpiryThreshold := Some 42\<rparr> :: example_config AlertChannel"
  have bound: "\<bar>42 :: int\<bar> \<le> 2 ^ 53" by simp
  have p: "alertChannelFromJSON example_registry (Json (JObject ?p)) = Inr ?ac"
    by (simp add: alertChannelFromJSON_def json_Decode_map_def decode_42 int64_of_float64_42
          from_id_def from_type_def from_sendRecovery_def from_sendFailure_def
          from_sendDegraded_def from_sslExpiry_def from_sslExpiryThreshold_def from_config_def
          del: decode_value.simps(3))
  have q: "alertChannelFromJSON example_registry (Json (JObject ?q)) = Inr ?ac"
    by (simp add: alertChannelFromJSON_def json_Decode_map_def decode_42 int64_of_float64_42
          from_id_def from_type_def from_sendRecovery_def from_sendFailure_def
          from_sendDegraded_def from_sslExpiry_def from_sslExpiryThreshold_def from_config_def
          del: decode_value.simps(3))
  have mp: "json_member ?p ''id'' = Some (JNumber 42 0)"
    "json_member ?p ''sslExpiryThreshold'' = Some (JNumber (42 * 10) (- 1))"
    and mq: "json_member ?q ''id'' = Some (JNumber (42 * 10) (- 1))"
    "json_member ?q ''sslExpiryThreshold'' = Some (JNumber 42 0)"
    by (simp_all add: json_member_def)
  from integer_and_float_literals_agree [OF bound p] integer_and_float_literals_agree [OF bound q]
    mp mq bound p q
  show ?thesis
    by simp
qed

subsection \<open>The round trip of an alert channel\<close>









lemma decoded_bool_GoBool [simp]: "decoded_bool (map_option GoBool x) None = x"
  by (cases x) (simp_all add: decoded_bool_def)

lemma absent_or_bool_GoBool [simp]: "absent_or_bool (map_option GoBool x)"
  by (cases x) (simp_all add: absent_or_bool_def)













end
